theory Spec2Isabelle
  imports Complex_Main
begin

section \<open>Arrays, slot names and the mesh block\<close>

text \<open>
  This theory embeds the geometry engine of \<^verbatim>\<open>src/coordinates/sinusoidal.cpp\<close>: Minkowski
  spacetime in sinusoidal ("snake") coordinates, with line element
  \<^verbatim>\<open>ds^2 = -dt^2 + alpha^2 dx^2 - 2 beta dx dy + dy^2 + dz^2\<close>.

  \<^item> \<^verbatim>\<open>Real\<close> is read as a real number, so every statement below is an exact equation
    over the reals; rounding is outside the model.
  \<^item> An \<^verbatim>\<open>AthenaArray<Real>\<close> is a total function from its index tuple to its
    entry, so \<^verbatim>\<open>prim(IDN,k,j,i)\<close> is \<open>prim (IDN, k, j, i)\<close>. The source never checks a
    bound: an index outside the allocated range is undefined behaviour there and an
    ordinary entry here. Distinct arguments of a function are distinct arrays.
  \<^item> A \<^verbatim>\<open>for (int i = lo; i <= hi; ++i)\<close> loop is a \<^const>\<open>fold\<close> of its body over
    the index list \<open>[lo..hi]\<close>. Indices are mathematical integers; the \<^verbatim>\<open>int\<close> indices
    of the source do not wrap around for a block that fits in memory.
  \<^item> \<^verbatim>\<open>std::sqrt\<close> of a negative number and a division by zero are NaN or infinite in
    the source and some real number here; the theorems that depend on them carry the
    hypothesis that keeps the argument in range.
\<close>

text \<open>\<^verbatim>\<open>SQR\<close> is the squaring macro of \<^verbatim>\<open>athena.hpp\<close>.\<close>

definition SQR :: "real \<Rightarrow> real" where
  "SQR x = x * x"

text \<open>
  The slot names of the variable arrays and of the metric arrays are enumerators declared
  in \<^verbatim>\<open>athena.hpp\<close>, which is not among the sources; the datatypes list the names
  that \<^verbatim>\<open>sinusoidal.cpp\<close> uses, each a slot of its own.
\<close>

datatype var_index = IDN | IEN | IVX | IVY | IVZ | IM1 | IM2 | IM3 | IBY | IBZ

datatype metric_index = I00 | I11 | I12 | I22 | I33

text \<open>
  The part of \<^verbatim>\<open>MeshBlock\<close> that the coordinates read and write: the index bounds
  \<^verbatim>\<open>is, ie, js, je, ks, ke\<close>, the block size, the face positions and spacings owned by
  the mesh, the volume-averaged positions and spacings that the constructor fills in,
  and the adiabatic index behind \<^verbatim>\<open>pfluid->pf_eos->GetGamma()\<close>.
\<close>

record MeshBlock =
  pb_is :: int
  pb_ie :: int
  pb_js :: int
  pb_je :: int
  pb_ks :: int
  pb_ke :: int
  block_size_nx1 :: int
  block_size_nx2 :: int
  block_size_nx3 :: int
  x1f :: "int \<Rightarrow> real"
  x2f :: "int \<Rightarrow> real"
  x3f :: "int \<Rightarrow> real"
  dx1f :: "int \<Rightarrow> real"
  dx2f :: "int \<Rightarrow> real"
  dx3f :: "int \<Rightarrow> real"
  x1v :: "int \<Rightarrow> real"
  x2v :: "int \<Rightarrow> real"
  x3v :: "int \<Rightarrow> real"
  dx1v :: "int \<Rightarrow> real"
  dx2v :: "int \<Rightarrow> real"
  dx3v :: "int \<Rightarrow> real"
  GetGamma :: real

text \<open>The fourteen one-dimensional arrays a \<^verbatim>\<open>Coordinates\<close> object owns, and its block.\<close>

record Coordinates =
  pmy_block :: MeshBlock
  cell_width1_i :: "int \<Rightarrow> real"
  src_terms_i1 :: "int \<Rightarrow> real"
  metric_cell_i1 :: "int \<Rightarrow> real"
  metric_cell_i2 :: "int \<Rightarrow> real"
  metric_face1_i1 :: "int \<Rightarrow> real"
  metric_face1_i2 :: "int \<Rightarrow> real"
  metric_face2_i1 :: "int \<Rightarrow> real"
  metric_face2_i2 :: "int \<Rightarrow> real"
  metric_face3_i1 :: "int \<Rightarrow> real"
  metric_face3_i2 :: "int \<Rightarrow> real"
  trans_face1_i2 :: "int \<Rightarrow> real"
  trans_face2_i1 :: "int \<Rightarrow> real"
  trans_face2_i2 :: "int \<Rightarrow> real"
  trans_face3_i2 :: "int \<Rightarrow> real"

section \<open>The constructor\<close>

text \<open>
  The chart parameters are the constants \<^verbatim>\<open>globals::A = 10.0\<close> and
  \<^verbatim>\<open>globals::K = 0.1\<close> of the source ("TODO: find better input method"). The
  constructor below takes them as arguments \<open>A\<close> and \<open>K\<close>, so that statements about
  other amplitudes and wavenumbers can be made; the source is the instance at
  \<open>globals_A\<close> and \<open>globals_K\<close>.
\<close>

definition globals_A :: real where
  "globals_A = 10"

definition globals_K :: real where
  "globals_K = 1 / 10"

text \<open>Initialize volume-averaged positions and spacings: x-direction.\<close>

definition set_x1v :: "int \<Rightarrow> MeshBlock \<Rightarrow> MeshBlock" where
  "set_x1v i pb = pb\<lparr>x1v := (x1v pb)(i := (1/2) * (x1f pb i + x1f pb (i+1)))\<rparr>"

definition set_dx1v :: "int \<Rightarrow> MeshBlock \<Rightarrow> MeshBlock" where
  "set_dx1v i pb = pb\<lparr>dx1v := (dx1v pb)(i := x1v pb (i+1) - x1v pb i)\<rparr>"

definition init_x1 :: "int \<Rightarrow> MeshBlock \<Rightarrow> MeshBlock" where
  "init_x1 NGHOST pb =
     fold set_dx1v [pb_is pb - NGHOST .. pb_ie pb + NGHOST - 1]
       (fold set_x1v [pb_is pb - NGHOST .. pb_ie pb + NGHOST] pb)"

text \<open>Initialize volume-averaged positions and spacings: y-direction.\<close>

definition set_x2v :: "int \<Rightarrow> MeshBlock \<Rightarrow> MeshBlock" where
  "set_x2v j pb = pb\<lparr>x2v := (x2v pb)(j := (1/2) * (x2f pb j + x2f pb (j+1)))\<rparr>"

definition set_dx2v :: "int \<Rightarrow> MeshBlock \<Rightarrow> MeshBlock" where
  "set_dx2v j pb = pb\<lparr>dx2v := (dx2v pb)(j := x2v pb (j+1) - x2v pb j)\<rparr>"

definition init_x2 :: "int \<Rightarrow> MeshBlock \<Rightarrow> MeshBlock" where
  "init_x2 NGHOST pb =
     (if block_size_nx2 pb = 1
      then (set_x2v (pb_js pb) pb)\<lparr>dx2v := (dx2v pb)(pb_js pb := dx2f pb (pb_js pb))\<rparr>
      else fold set_dx2v [pb_js pb - NGHOST .. pb_je pb + NGHOST - 1]
             (fold set_x2v [pb_js pb - NGHOST .. pb_je pb + NGHOST] pb))"

text \<open>Initialize volume-averaged positions and spacings: z-direction.\<close>

definition set_x3v :: "int \<Rightarrow> MeshBlock \<Rightarrow> MeshBlock" where
  "set_x3v k pb = pb\<lparr>x3v := (x3v pb)(k := (1/2) * (x3f pb k + x3f pb (k+1)))\<rparr>"

definition set_dx3v :: "int \<Rightarrow> MeshBlock \<Rightarrow> MeshBlock" where
  "set_dx3v k pb = pb\<lparr>dx3v := (dx3v pb)(k := x3v pb (k+1) - x3v pb k)\<rparr>"

definition init_x3 :: "int \<Rightarrow> MeshBlock \<Rightarrow> MeshBlock" where
  "init_x3 NGHOST pb =
     (if block_size_nx3 pb = 1
      then (set_x3v (pb_ks pb) pb)\<lparr>dx3v := (dx3v pb)(pb_ks pb := dx3f pb (pb_ks pb))\<rparr>
      else fold set_dx3v [pb_ks pb - NGHOST .. pb_ke pb + NGHOST - 1]
             (fold set_x3v [pb_ks pb - NGHOST .. pb_ke pb + NGHOST] pb))"

text \<open>
  Calculate intermediate geometric quantities: the body of the loop over \<open>i\<close>, with the
  local names of the source.
\<close>

definition geometry_at :: "real \<Rightarrow> real \<Rightarrow> MeshBlock \<Rightarrow> int \<Rightarrow> Coordinates \<Rightarrow> Coordinates" where
  "geometry_at A K pb i c =
     (let r_c = x1v pb i;
          r_m = x1f pb i;
          r_p = x1f pb (i+1);
          sin_2m = sin (2*K*r_m);
          sin_2p = sin (2*K*r_p);
          cos_c = cos (K*r_c);
          cos_m = cos (K*r_m);
          cos_p = cos (K*r_p);
          alpha_sq_c = 1 + SQR A * SQR K * SQR cos_c;
          alpha_sq_m = 1 + SQR A * SQR K * SQR cos_m;
          alpha_c = sqrt alpha_sq_c;
          beta_c = A*K * cos_c;
          beta_m = A*K * cos_m;
          beta_p = A*K * cos_p
      in c\<lparr>cell_width1_i := (cell_width1_i c)(i :=
              1 / (4 * (1 + SQR A * SQR K))
                * (2*K*(2 + SQR A * SQR K) * dx1f pb i - SQR A * SQR K * (sin_2m - sin_2p))),
            src_terms_i1 := (src_terms_i1 c)(i := (beta_m - beta_p) / dx1f pb i),
            metric_cell_i1 := (metric_cell_i1 c)(i := alpha_sq_c),
            metric_cell_i2 := (metric_cell_i2 c)(i := beta_c),
            metric_face1_i1 := (metric_face1_i1 c)(i := alpha_sq_m),
            metric_face1_i2 := (metric_face1_i2 c)(i := beta_m),
            metric_face2_i1 := (metric_face2_i1 c)(i := alpha_sq_c),
            metric_face2_i2 := (metric_face2_i2 c)(i := beta_c),
            metric_face3_i1 := (metric_face3_i1 c)(i := alpha_sq_c),
            metric_face3_i2 := (metric_face3_i2 c)(i := beta_c),
            trans_face1_i2 := (trans_face1_i2 c)(i := beta_m),
            trans_face2_i1 := (trans_face2_i1 c)(i := alpha_c),
            trans_face2_i2 := (trans_face2_i2 c)(i := beta_c),
            trans_face3_i2 := (trans_face3_i2 c)(i := beta_m)\<rparr>)"

text \<open>
  The constructor: it fills the block's volume-averaged positions, allocates the
  fourteen arrays and runs the loop from \<open>is - NGHOST\<close> to \<open>ie + NGHOST\<close>.
  \<^verbatim>\<open>NGHOST\<close> is a macro of the build and \<^verbatim>\<open>NewAthenaArray\<close> a method of
  \<^verbatim>\<open>athena_arrays.hpp\<close>; neither is among the sources, so the ghost width and the
  contents of a freshly allocated array of a given size are arguments.
\<close>

definition Coordinates_ctor ::
  "real \<Rightarrow> real \<Rightarrow> int \<Rightarrow> (int \<Rightarrow> int \<Rightarrow> real) \<Rightarrow> MeshBlock \<Rightarrow> Coordinates" where
  "Coordinates_ctor A K NGHOST NewAthenaArray pb0 =
     (let pb = init_x3 NGHOST (init_x2 NGHOST (init_x1 NGHOST pb0));
          n_cells_1 = block_size_nx1 pb + 2*NGHOST
      in fold (geometry_at A K pb) [pb_is pb - NGHOST .. pb_ie pb + NGHOST]
           \<lparr>pmy_block = pb,
            cell_width1_i = NewAthenaArray n_cells_1,
            src_terms_i1 = NewAthenaArray n_cells_1,
            metric_cell_i1 = NewAthenaArray n_cells_1,
            metric_cell_i2 = NewAthenaArray n_cells_1,
            metric_face1_i1 = NewAthenaArray n_cells_1,
            metric_face1_i2 = NewAthenaArray n_cells_1,
            metric_face2_i1 = NewAthenaArray n_cells_1,
            metric_face2_i2 = NewAthenaArray n_cells_1,
            metric_face3_i1 = NewAthenaArray n_cells_1,
            metric_face3_i2 = NewAthenaArray n_cells_1,
            trans_face1_i2 = NewAthenaArray n_cells_1,
            trans_face2_i1 = NewAthenaArray n_cells_1,
            trans_face2_i2 = NewAthenaArray n_cells_1,
            trans_face3_i2 = NewAthenaArray n_cells_1\<rparr>)"

section \<open>Volumes\<close>

text \<open>\<^verbatim>\<open>CellVolume\<close>: "Delta V = Delta x * Delta y * Delta z".\<close>

definition CellVolume ::
  "Coordinates \<Rightarrow> int \<Rightarrow> int \<Rightarrow> int \<Rightarrow> int \<Rightarrow> (int \<Rightarrow> real) \<Rightarrow> (int \<Rightarrow> real)" where
  "CellVolume c k j il iu volumes =
     (let delta_y = dx2f (pmy_block c) j;
          delta_z = dx3f (pmy_block c) k
      in fold (\<lambda>i volumes.
                 let delta_x = dx1f (pmy_block c) i
                 in volumes(i := delta_x * delta_y * delta_z))
           [il..iu] volumes)"


section \<open>Metric providers\<close>

type_synonym metric_array = "metric_index \<times> int \<Rightarrow> real"

text \<open>
  "Set metric terms": the ten assignments that the four providers share, for the pair
  \<open>alpha_sq\<close>, \<open>beta\<close> of the location. The state is the pair of the arrays \<open>g\<close> and
  \<open>g_inv\<close>.
\<close>

definition set_metric_terms ::
  "real \<Rightarrow> real \<Rightarrow> int \<Rightarrow> metric_array \<times> metric_array \<Rightarrow> metric_array \<times> metric_array" where
  "set_metric_terms alpha_sq beta i gg =
     (case gg of (g, g_inv) \<Rightarrow>
       (g((I00, i) := - 1,
          (I11, i) := alpha_sq,
          (I12, i) := - beta,
          (I22, i) := 1,
          (I33, i) := 1),
        g_inv((I00, i) := - 1,
              (I11, i) := 1,
              (I12, i) := beta,
              (I22, i) := alpha_sq,
              (I33, i) := 1)))"

definition CellMetric ::
  "int \<Rightarrow> Coordinates \<Rightarrow> int \<Rightarrow> int \<Rightarrow> metric_array \<times> metric_array \<Rightarrow> metric_array \<times> metric_array" where
  "CellMetric NGHOST c k j gg =
     fold (\<lambda>i. set_metric_terms (metric_cell_i1 c i) (metric_cell_i2 c i) i)
       [pb_is (pmy_block c) - NGHOST .. pb_ie (pmy_block c) + NGHOST] gg"

definition Face1Metric ::
  "Coordinates \<Rightarrow> int \<Rightarrow> int \<Rightarrow> metric_array \<times> metric_array \<Rightarrow> metric_array \<times> metric_array" where
  "Face1Metric c k j gg =
     fold (\<lambda>i. set_metric_terms (metric_face1_i1 c i) (metric_face1_i2 c i) i)
       [pb_is (pmy_block c) .. pb_ie (pmy_block c) + 1] gg"

definition Face2Metric ::
  "Coordinates \<Rightarrow> int \<Rightarrow> int \<Rightarrow> metric_array \<times> metric_array \<Rightarrow> metric_array \<times> metric_array" where
  "Face2Metric c k j gg =
     fold (\<lambda>i. set_metric_terms (metric_face2_i1 c i) (metric_face2_i2 c i) i)
       [pb_is (pmy_block c) .. pb_ie (pmy_block c)] gg"

definition Face3Metric ::
  "Coordinates \<Rightarrow> int \<Rightarrow> int \<Rightarrow> metric_array \<times> metric_array \<Rightarrow> metric_array \<times> metric_array" where
  "Face3Metric c k j gg =
     fold (\<lambda>i. set_metric_terms (metric_face3_i1 c i) (metric_face3_i2 c i) i)
       [pb_is (pmy_block c) .. pb_ie (pmy_block c)] gg"

text \<open>
  The 4x4 matrix that the five stored components of index \<open>i\<close> stand for (the metric is
  symmetric and its other components vanish), the product of two such matrices, and
  the identity.
\<close>

definition metric_matrix :: "metric_array \<Rightarrow> int \<Rightarrow> real list list" where
  "metric_matrix g i =
     [[g (I00, i), 0, 0, 0],
      [0, g (I11, i), g (I12, i), 0],
      [0, g (I12, i), g (I22, i), 0],
      [0, 0, 0, g (I33, i)]]"

definition mat_mul :: "real list list \<Rightarrow> real list list \<Rightarrow> real list list" where
  "mat_mul X Y =
     map (\<lambda>row. map (\<lambda>b. sum_list (map (\<lambda>a. row ! a * (Y ! a) ! b) [0, 1, 2, 3]))
                     [0, 1, 2, 3]) X"

definition identity4 :: "real list list" where
  "identity4 = [[1, 0, 0, 0], [0, 1, 0, 0], [0, 0, 1, 0], [0, 0, 0, 1]]"

section \<open>Source terms\<close>

type_synonym cell_array = "var_index \<times> int \<times> int \<times> int \<Rightarrow> real"

text \<open>
  The body of the innermost loop up to "Calculate source terms": the value \<open>s1\<close> for
  cell \<open>(k, j, i)\<close>.
\<close>

definition source_s1 :: "Coordinates \<Rightarrow> real \<Rightarrow> cell_array \<Rightarrow> int \<Rightarrow> int \<Rightarrow> int \<Rightarrow> real" where
  "source_s1 c gamma_adi_red prim k j i =
     (let g00 = - 1;
          g11 = metric_cell_i1 c i;
          g12 = metric_cell_i2 c i;
          g22 = 1;
          g33 = 1;
          gamma_211 = src_terms_i1 c i;
          rho = prim (IDN, k, j, i);
          pgas = prim (IEN, k, j, i);
          v1 = prim (IVX, k, j, i);
          v2 = prim (IVY, k, j, i);
          v3 = prim (IVZ, k, j, i);
          u0 = sqrt (- 1 / (g00 + g11*v1*v1 + 2*g12*v1*v2 + g22*v2*v2 + g33*v3*v3));
          u1 = u0 * v1;
          u2 = u0 * v2;
          u_2 = g12*u1 + g22*u2;
          rho_h = rho + gamma_adi_red * pgas;
          t1_2 = rho_h * u1 * u_2
      in gamma_211 * t1_2)"

text \<open>
  The source term as the specification words it: the same computation, but with the
  covariant components taken from the cell-centered metric provider, so that
  \<open>g12\<close> is \<open>- beta\<close> both in the normalization and in \<open>u_2\<close>. It is compared
  with \<open>source_s1\<close> below; the code never calls it.
\<close>

definition spec_source_s1 ::
  "int \<Rightarrow> Coordinates \<Rightarrow> real \<Rightarrow> cell_array \<Rightarrow> int \<Rightarrow> int \<Rightarrow> int \<Rightarrow> real" where
  "spec_source_s1 NGHOST c gamma_adi_red prim k j i =
     (let g = fst (CellMetric NGHOST c k j (\<lambda>_. 0, \<lambda>_. 0));
          g00 = g (I00, i);
          g11 = g (I11, i);
          g12 = g (I12, i);
          g22 = g (I22, i);
          g33 = g (I33, i);
          sourceCoeff = src_terms_i1 c i;
          rho = prim (IDN, k, j, i);
          pgas = prim (IEN, k, j, i);
          v1 = prim (IVX, k, j, i);
          v2 = prim (IVY, k, j, i);
          v3 = prim (IVZ, k, j, i);
          u0 = sqrt (- 1 / (g00 + g11*v1*v1 + 2*g12*v1*v2 + g22*v2*v2 + g33*v3*v3));
          u1 = u0 * v1;
          u2 = u0 * v2;
          u_2 = g12*u1 + g22*u2;
          rho_h = rho + gamma_adi_red * pgas
      in sourceCoeff * (rho_h * u1 * u_2))"

text \<open>
  The two arrays \<^verbatim>\<open>CoordinateSourceTerms\<close> is called with: \<open>prim\<close>, passed by const
  reference, and \<open>cons\<close>, updated in place. They are two arrays (the primitive and the
  conserved variables of the fluid), not one array passed twice.
\<close>

record fluid_arrays =
  prim :: cell_array
  cons :: cell_array

text \<open>"Add source terms to conserved quantities": \<^verbatim>\<open>m1 += dt * s1\<close>.\<close>

definition add_source :: "real \<Rightarrow> Coordinates \<Rightarrow> real \<Rightarrow> int \<Rightarrow> int \<Rightarrow> int \<Rightarrow> fluid_arrays \<Rightarrow> fluid_arrays" where
  "add_source dt c gamma_adi_red k j i s =
     (let s1 = source_s1 c gamma_adi_red (prim s) k j i;
          m1 = cons s (IM1, k, j, i)
      in s\<lparr>cons := (cons s)((IM1, k, j, i) := m1 + dt * s1)\<rparr>)"

definition CoordinateSourceTerms :: "real \<Rightarrow> Coordinates \<Rightarrow> fluid_arrays \<Rightarrow> fluid_arrays" where
  "CoordinateSourceTerms dt c s =
     (let gamma_adi = GetGamma (pmy_block c);
          gamma_adi_red = gamma_adi / (gamma_adi - 1)
      in fold (\<lambda>k. fold (\<lambda>j. fold (\<lambda>i. add_source dt c gamma_adi_red k j i)
                                [pb_is (pmy_block c) .. pb_ie (pmy_block c)])
                        [pb_js (pmy_block c) .. pb_je (pmy_block c)])
           [pb_ks (pmy_block c) .. pb_ke (pmy_block c)] s)"

section \<open>Transformation to the locally flat frame\<close>

type_synonym face_array = "var_index \<times> int \<Rightarrow> real"

text \<open>
  The arrays a \<^verbatim>\<open>PrimToLocal\<close> function updates in place: the left and right primitive
  states along a row of interfaces, and the output array of the normal magnetic field
  (\<^verbatim>\<open>bx\<close> in \<^verbatim>\<open>PrimToLocal1\<close>, \<^verbatim>\<open>bz\<close> in \<^verbatim>\<open>PrimToLocal3\<close>).
  \<^verbatim>\<open>MAGNETIC_FIELDS_ENABLED\<close> is a macro of the build, not among the sources, and an
  argument here.
\<close>

record interface_arrays =
  prim_left :: face_array
  prim_right :: face_array
  b_normal :: "int \<Rightarrow> real"

text \<open>The body of the loop of \<^verbatim>\<open>PrimToLocal1\<close> at interface \<open>i\<close>.\<close>

definition PrimToLocal1_at ::
  "bool \<Rightarrow> Coordinates \<Rightarrow> (int \<times> int \<times> int \<Rightarrow> real) \<Rightarrow> int \<Rightarrow> int \<Rightarrow> int
     \<Rightarrow> interface_arrays \<Rightarrow> interface_arrays" where
  "PrimToLocal1_at MAGNETIC_FIELDS_ENABLED c b1_vals k j i s =
     (let g00 = - 1;
          g11 = metric_face1_i1 c i;
          g12 = - metric_face1_i2 c i;
          g22 = 1;
          g33 = 1;
          mt0 = 1;
          mx1 = 1;
          my1 = - trans_face1_i2 c i;
          my2 = 1;
          mz3 = 1;
          v1l = prim_left s (IVX, i);
          v2l = prim_left s (IVY, i);
          v3l = prim_left s (IVZ, i);
          v1r = prim_right s (IVX, i);
          v2r = prim_right s (IVY, i);
          v3r = prim_right s (IVZ, i);
          u0l = sqrt (- 1 / (g00 + g11*v1l*v1l + 2*g12*v1l*v2l + g22*v2l*v2l + g33*v3l*v3l));
          u1l = u0l * v1l;
          u2l = u0l * v2l;
          u3l = u0l * v3l;
          u0r = sqrt (- 1 / (g00 + g11*v1r*v1r + 2*g12*v1r*v2r + g22*v2r*v2r + g33*v3r*v3r));
          u1r = u0r * v1r;
          u2r = u0r * v2r;
          u3r = u0r * v3r;
          utl = mt0*u0l;
          uxl = mx1*u1l;
          uyl = my1*u1l + my2*u2l;
          uzl = mz3*u3l;
          utr = mt0*u0r;
          uxr = mx1*u1r;
          uyr = my1*u1r + my2*u2r;
          uzr = mz3*u3r;
          s' = s\<lparr>prim_left := (prim_left s)
                    ((IVX, i) := uxl / utl, (IVY, i) := uyl / utl, (IVZ, i) := uzl / utl),
                  prim_right := (prim_right s)
                    ((IVX, i) := uxr / utr, (IVY, i) := uyr / utr, (IVZ, i) := uzr / utr)\<rparr>
      in if MAGNETIC_FIELDS_ENABLED
         then
           (let b1 = b1_vals (k, j, i);
                b2l = prim_left s' (IBY, i);
                b3l = prim_left s' (IBZ, i);
                b2r = prim_right s' (IBY, i);
                b3r = prim_right s' (IBZ, i);
                bcon0l = g11*b1*u1l + g12*(b1*u2l+b2l*u1l) + g22*b2l*u2l + g33*b3l*u3l;
                bcon1l = (b1 + bcon0l * u1l) / u0l;
                bcon2l = (b2l + bcon0l * u2l) / u0l;
                bcon3l = (b3l + bcon0l * u3l) / u0l;
                bcon0r = g11*b1*u1r + g12*(b1*u2r+b2r*u1r) + g22*b2r*u2r + g33*b3r*u3r;
                bcon1r = (b1 + bcon0r * u1r) / u0r;
                bcon2r = (b2r + bcon0r * u2r) / u0r;
                bcon3r = (b3r + bcon0r * u3r) / u0r;
                bcontl = mt0*bcon0l;
                bconxl = mx1*bcon1l;
                bconyl = my2*bcon2l;
                bconzl = mz3*bcon3l;
                bcontr = mt0*bcon0r;
                bconxr = mx1*bcon1r;
                bconyr = my2*bcon2r;
                bconzr = mz3*bcon3r;
                bxl = utl * bconxl - uxl * bcontl;
                bxr = utr * bconxr - uxr * bcontr
            in s'\<lparr>b_normal := (b_normal s')(i := (1/2) * (bxl + bxr)),
                  prim_left := (prim_left s')
                    ((IBY, i) := utl * bconyl - uyl * bcontl,
                     (IBZ, i) := utl * bconzl - uzl * bcontl),
                  prim_right := (prim_right s')
                    ((IBY, i) := utr * bconyr - uyr * bcontr,
                     (IBZ, i) := utr * bconzr - uzr * bcontr)\<rparr>)
         else s')"

definition PrimToLocal1 ::
  "bool \<Rightarrow> Coordinates \<Rightarrow> int \<Rightarrow> int \<Rightarrow> (int \<times> int \<times> int \<Rightarrow> real)
     \<Rightarrow> interface_arrays \<Rightarrow> interface_arrays" where
  "PrimToLocal1 MAGNETIC_FIELDS_ENABLED c k j b1_vals s =
     fold (PrimToLocal1_at MAGNETIC_FIELDS_ENABLED c b1_vals k j)
       [pb_is (pmy_block c) .. pb_ie (pmy_block c) + 1] s"

text \<open>
  The body of the loop of \<^verbatim>\<open>PrimToLocal3\<close> at interface \<open>i\<close>. The local velocities go to
  the slots \<^verbatim>\<open>IVZ/IVX/IVY\<close>; the four assignments to the tangential magnetic slots are
  those of the source, in its order.
\<close>

definition PrimToLocal3_at ::
  "bool \<Rightarrow> Coordinates \<Rightarrow> (int \<times> int \<times> int \<Rightarrow> real) \<Rightarrow> int \<Rightarrow> int \<Rightarrow> int
     \<Rightarrow> interface_arrays \<Rightarrow> interface_arrays" where
  "PrimToLocal3_at MAGNETIC_FIELDS_ENABLED c b3_vals k j i s =
     (let g00 = - 1;
          g11 = metric_face3_i1 c i;
          g12 = - metric_face3_i2 c i;
          g22 = 1;
          g33 = 1;
          mt0 = 1;
          mx3 = 1;
          my1 = 1;
          mz1 = - trans_face3_i2 c i;
          mz2 = 1;
          v1l = prim_left s (IVX, i);
          v2l = prim_left s (IVY, i);
          v3l = prim_left s (IVZ, i);
          v1r = prim_right s (IVX, i);
          v2r = prim_right s (IVY, i);
          v3r = prim_right s (IVZ, i);
          u0l = sqrt (- 1 / (g00 + g11*v1l*v1l + 2*g12*v1l*v2l + g22*v2l*v2l + g33*v3l*v3l));
          u1l = u0l * v1l;
          u2l = u0l * v2l;
          u3l = u0l * v3l;
          u0r = sqrt (- 1 / (g00 + g11*v1r*v1r + 2*g12*v1r*v2r + g22*v2r*v2r + g33*v3r*v3r));
          u1r = u0r * v1r;
          u2r = u0r * v2r;
          u3r = u0r * v3r;
          utl = mt0*u0l;
          uxl = mx3*u3l;
          uyl = my1*u1l;
          uzl = mz1*u1l + mz2*u2l;
          utr = mt0*u0r;
          uxr = mx3*u3r;
          uyr = my1*u1r;
          uzr = mz1*u1r + mz2*u2r;
          s' = s\<lparr>prim_left := (prim_left s)
                    ((IVZ, i) := uxl / utl, (IVX, i) := uyl / utl, (IVY, i) := uzl / utl),
                  prim_right := (prim_right s)
                    ((IVZ, i) := uxr / utr, (IVX, i) := uyr / utr, (IVY, i) := uzr / utr)\<rparr>
      in if MAGNETIC_FIELDS_ENABLED
         then
           (let b3 = b3_vals (k, j, i);
                b1l = prim_left s' (IBY, i);
                b2l = prim_left s' (IBZ, i);
                b1r = prim_right s' (IBY, i);
                b2r = prim_right s' (IBZ, i);
                bcon0l = g11*b1l*u1l + g12*(b1l*u2l+b2l*u1l) + g22*b2l*u2l + g33*b3*u3l;
                bcon1l = (b1l + bcon0l * u1l) / u0l;
                bcon2l = (b2l + bcon0l * u2l) / u0l;
                bcon3l = (b3 + bcon0l * u3l) / u0l;
                bcon0r = g11*b1r*u1r + g12*(b1r*u2r+b2r*u1r) + g22*b2r*u2r + g33*b3*u3r;
                bcon1r = (b1r + bcon0r * u1r) / u0r;
                bcon2r = (b2r + bcon0r * u2r) / u0r;
                bcon3r = (b3 + bcon0r * u3r) / u0r;
                bcontl = mt0*bcon0l;
                bconxl = mx3*bcon3l;
                bconyl = my1*bcon1l;
                bconzl = mz1*bcon1l + mz2*bcon2l;
                bcontr = mt0*bcon0r;
                bconxr = mx3*bcon3r;
                bconyr = my1*bcon1r;
                bconzr = mz1*bcon1r + mz2*bcon2r;
                bzl = utl * bconzl - uzl * bcontl;
                bzr = utr * bconzr - uzr * bcontr
            in s'\<lparr>b_normal := (b_normal s')(i := (1/2) * (bzl + bzr)),
                  prim_left := (prim_left s')
                    ((IBY, i) := utl * bconxl - uxl * bcontl,
                     (IBZ, i) := utl * bconyl - uyl * bcontl),
                  prim_right := (prim_right s')
                    ((IBY, i) := utr * bconyr - uyr * bcontr,
                     (IBZ, i) := utr * bconzr - uzr * bcontr)\<rparr>)
         else s')"

definition PrimToLocal3 ::
  "bool \<Rightarrow> Coordinates \<Rightarrow> int \<Rightarrow> int \<Rightarrow> (int \<times> int \<times> int \<Rightarrow> real)
     \<Rightarrow> interface_arrays \<Rightarrow> interface_arrays" where
  "PrimToLocal3 MAGNETIC_FIELDS_ENABLED c k j b3_vals s =
     fold (PrimToLocal3_at MAGNETIC_FIELDS_ENABLED c b3_vals k j)
       [pb_is (pmy_block c) .. pb_ie (pmy_block c)] s"

text \<open>
  The entries of the three arrays at interface \<open>i\<close>: all that the body of a
  \<^verbatim>\<open>PrimToLocal\<close> loop reads and writes at that interface.
\<close>

definition column ::
  "int \<Rightarrow> interface_arrays \<Rightarrow> (var_index \<Rightarrow> real) \<times> (var_index \<Rightarrow> real) \<times> real" where
  "column i s = (\<lambda>n. prim_left s (n, i), \<lambda>n. prim_right s (n, i), b_normal s i)"

section \<open>Example data\<close>

text \<open>
  A block of four cells in the x-direction with two ghost cells on each side, one cell
  in the other two directions, faces at the multiples of \<open>5 pi\<close> (so that, at the
  wavenumber of the source, \<open>K x\<close> runs through the multiples of \<open>pi / 2\<close>), and the
  coordinates the constructor builds for it with the parameters of the source.
\<close>

definition mb_ex :: MeshBlock where
  "mb_ex =
     \<lparr>pb_is = 2, pb_ie = 5, pb_js = 0, pb_je = 0, pb_ks = 0, pb_ke = 0,
      block_size_nx1 = 4, block_size_nx2 = 1, block_size_nx3 = 1,
      x1f = (\<lambda>i. 5 * pi * of_int (i - 2)),
      x2f = (\<lambda>j. of_int j),
      x3f = (\<lambda>k. of_int k),
      dx1f = (\<lambda>i. 5 * pi),
      dx2f = (\<lambda>j. 1),
      dx3f = (\<lambda>k. 1),
      x1v = (\<lambda>i. 0), x2v = (\<lambda>j. 0), x3v = (\<lambda>k. 0),
      dx1v = (\<lambda>i. 0), dx2v = (\<lambda>j. 0), dx3v = (\<lambda>k. 0),
      GetGamma = 2\<rparr>"

definition coords_ex :: Coordinates where
  "coords_ex = Coordinates_ctor globals_A globals_K 2 (\<lambda>n i. 0) mb_ex"

text \<open>
  A fluid with density 1, pressure 1 and velocity \<open>(4/5, 0, 0)\<close> in every cell, and
  conserved variables all zero.
\<close>

definition fluid_ex :: fluid_arrays where
  "fluid_ex =
     \<lparr>prim = (\<lambda>(n, k, j, i).
         if n = IDN then 1 else if n = IEN then 1 else if n = IVX then 4/5 else 0),
      cons = (\<lambda>idx. 0)\<rparr>"

text \<open>
  Interface states with equal left and right sides: a fluid at rest with tangential field
  slots 3 and 7, and a moving fluid with velocity \<open>(1/2, 1/4, 1/8)\<close>.
\<close>

definition rest_ex :: interface_arrays where
  "rest_ex =
     \<lparr>prim_left = (\<lambda>(n, i). if n = IDN then 1 else if n = IEN then 1
                       else if n = IBY then 3 else if n = IBZ then 7 else 0),
      prim_right = (\<lambda>(n, i). if n = IDN then 1 else if n = IEN then 1
                       else if n = IBY then 3 else if n = IBZ then 7 else 0),
      b_normal = (\<lambda>i. 0)\<rparr>"

definition moving_ex :: interface_arrays where
  "moving_ex =
     \<lparr>prim_left = (\<lambda>(n, i). if n = IDN then 1 else if n = IEN then 1
                       else if n = IVX then 1/2 else if n = IVY then 1/4
                       else if n = IVZ then 1/8 else 0),
      prim_right = (\<lambda>(n, i). if n = IDN then 1 else if n = IEN then 1
                       else if n = IVX then 1/2 else if n = IVY then 1/4
                       else if n = IVZ then 1/8 else 0),
      b_normal = (\<lambda>i. 0)\<rparr>"

section \<open>Loops as closed forms\<close>

text \<open>A loop whose body leaves a component of the state alone leaves it alone.\<close>

lemma fold_frame:
  assumes "\<And>i s. P (f i s) = P s"
  shows "P (fold f xs s) = P s"
  using assms by (induction xs arbitrary: s) simp_all

lemma fold_set_x1v:
  "fold set_x1v xs pb =
     pb\<lparr>x1v := (\<lambda>i. if i \<in> set xs then (1/2) * (x1f pb i + x1f pb (i+1)) else x1v pb i)\<rparr>"
proof (induction xs arbitrary: pb)
  case Nil
  show ?case by simp
next
  case (Cons x xs)
  show ?case
    unfolding fold_simps Cons.IH
    by (rule MeshBlock.equality) (auto simp: set_x1v_def fun_eq_iff)
qed


text \<open>The constructor's first three steps change the volume-averaged arrays only.\<close>

lemma init_x1_frame:
  "pb_is (init_x1 n pb) = pb_is pb" "pb_ie (init_x1 n pb) = pb_ie pb"
  "pb_js (init_x1 n pb) = pb_js pb" "pb_je (init_x1 n pb) = pb_je pb"
  "pb_ks (init_x1 n pb) = pb_ks pb" "pb_ke (init_x1 n pb) = pb_ke pb"
  "block_size_nx1 (init_x1 n pb) = block_size_nx1 pb"
  "block_size_nx2 (init_x1 n pb) = block_size_nx2 pb"
  "block_size_nx3 (init_x1 n pb) = block_size_nx3 pb"
  "x1f (init_x1 n pb) = x1f pb" "dx1f (init_x1 n pb) = dx1f pb"
  "x2f (init_x1 n pb) = x2f pb" "dx2f (init_x1 n pb) = dx2f pb"
  "x3f (init_x1 n pb) = x3f pb" "dx3f (init_x1 n pb) = dx3f pb"
  "GetGamma (init_x1 n pb) = GetGamma pb"
  unfolding init_x1_def
  by (simp_all add: fold_frame set_x1v_def set_dx1v_def)

lemma init_x1_x1v:
  "x1v (init_x1 n pb) i =
     (if pb_is pb - n \<le> i \<and> i \<le> pb_ie pb + n
      then (1/2) * (x1f pb i + x1f pb (i+1)) else x1v pb i)"
proof -
  have "x1v (fold set_dx1v xs q) = x1v q" for xs q
    by (rule fold_frame) (simp add: set_dx1v_def)
  then show ?thesis
    by (simp add: init_x1_def fold_set_x1v)
qed

lemma init_x2_frame:
  "pb_is (init_x2 n pb) = pb_is pb" "pb_ie (init_x2 n pb) = pb_ie pb"
  "pb_js (init_x2 n pb) = pb_js pb" "pb_je (init_x2 n pb) = pb_je pb"
  "pb_ks (init_x2 n pb) = pb_ks pb" "pb_ke (init_x2 n pb) = pb_ke pb"
  "block_size_nx1 (init_x2 n pb) = block_size_nx1 pb"
  "block_size_nx2 (init_x2 n pb) = block_size_nx2 pb"
  "block_size_nx3 (init_x2 n pb) = block_size_nx3 pb"
  "x1f (init_x2 n pb) = x1f pb" "dx1f (init_x2 n pb) = dx1f pb"
  "x1v (init_x2 n pb) = x1v pb"
  "x2f (init_x2 n pb) = x2f pb" "dx2f (init_x2 n pb) = dx2f pb"
  "x3f (init_x2 n pb) = x3f pb" "dx3f (init_x2 n pb) = dx3f pb"
  "GetGamma (init_x2 n pb) = GetGamma pb"
  unfolding init_x2_def
  by (simp_all add: fold_frame set_x2v_def set_dx2v_def)

lemma init_x3_frame:
  "pb_is (init_x3 n pb) = pb_is pb" "pb_ie (init_x3 n pb) = pb_ie pb"
  "pb_js (init_x3 n pb) = pb_js pb" "pb_je (init_x3 n pb) = pb_je pb"
  "pb_ks (init_x3 n pb) = pb_ks pb" "pb_ke (init_x3 n pb) = pb_ke pb"
  "block_size_nx1 (init_x3 n pb) = block_size_nx1 pb"
  "block_size_nx2 (init_x3 n pb) = block_size_nx2 pb"
  "block_size_nx3 (init_x3 n pb) = block_size_nx3 pb"
  "x1f (init_x3 n pb) = x1f pb" "dx1f (init_x3 n pb) = dx1f pb"
  "x1v (init_x3 n pb) = x1v pb"
  "x2f (init_x3 n pb) = x2f pb" "dx2f (init_x3 n pb) = dx2f pb"
  "x3f (init_x3 n pb) = x3f pb" "dx3f (init_x3 n pb) = dx3f pb"
  "GetGamma (init_x3 n pb) = GetGamma pb"
  unfolding init_x3_def
  by (simp_all add: fold_frame set_x3v_def set_dx3v_def)

lemmas init_frame = init_x1_frame init_x2_frame init_x3_frame

lemma fold_geometry_at:
  "fold (geometry_at A K pb) xs c =
     c\<lparr>cell_width1_i := (\<lambda>i. if i \<in> set xs
          then 1 / (4 * (1 + SQR A * SQR K))
                * (2*K*(2 + SQR A * SQR K) * dx1f pb i
                   - SQR A * SQR K * (sin (2*K*x1f pb i) - sin (2*K*x1f pb (i+1))))
          else cell_width1_i c i),
        src_terms_i1 := (\<lambda>i. if i \<in> set xs
          then (A*K * cos (K * x1f pb i) - A*K * cos (K * x1f pb (i+1))) / dx1f pb i
          else src_terms_i1 c i),
        metric_cell_i1 := (\<lambda>i. if i \<in> set xs
          then 1 + SQR A * SQR K * SQR (cos (K * x1v pb i)) else metric_cell_i1 c i),
        metric_cell_i2 := (\<lambda>i. if i \<in> set xs
          then A*K * cos (K * x1v pb i) else metric_cell_i2 c i),
        metric_face1_i1 := (\<lambda>i. if i \<in> set xs
          then 1 + SQR A * SQR K * SQR (cos (K * x1f pb i)) else metric_face1_i1 c i),
        metric_face1_i2 := (\<lambda>i. if i \<in> set xs
          then A*K * cos (K * x1f pb i) else metric_face1_i2 c i),
        metric_face2_i1 := (\<lambda>i. if i \<in> set xs
          then 1 + SQR A * SQR K * SQR (cos (K * x1v pb i)) else metric_face2_i1 c i),
        metric_face2_i2 := (\<lambda>i. if i \<in> set xs
          then A*K * cos (K * x1v pb i) else metric_face2_i2 c i),
        metric_face3_i1 := (\<lambda>i. if i \<in> set xs
          then 1 + SQR A * SQR K * SQR (cos (K * x1v pb i)) else metric_face3_i1 c i),
        metric_face3_i2 := (\<lambda>i. if i \<in> set xs
          then A*K * cos (K * x1v pb i) else metric_face3_i2 c i),
        trans_face1_i2 := (\<lambda>i. if i \<in> set xs
          then A*K * cos (K * x1f pb i) else trans_face1_i2 c i),
        trans_face2_i1 := (\<lambda>i. if i \<in> set xs
          then sqrt (1 + SQR A * SQR K * SQR (cos (K * x1v pb i))) else trans_face2_i1 c i),
        trans_face2_i2 := (\<lambda>i. if i \<in> set xs
          then A*K * cos (K * x1v pb i) else trans_face2_i2 c i),
        trans_face3_i2 := (\<lambda>i. if i \<in> set xs
          then A*K * cos (K * x1f pb i) else trans_face3_i2 c i)\<rparr>"
proof (induction xs arbitrary: c)
  case Nil
  show ?case by simp
next
  case (Cons x xs)
  show ?case
    unfolding fold_simps Cons.IH
    by (rule Coordinates.equality) (auto simp: geometry_at_def Let_def fun_eq_iff)
qed

text \<open>The block a constructed object points to, and the entries the constructor computed.\<close>

lemma ctor_block:
  "pmy_block (Coordinates_ctor A K n new pb) = init_x3 n (init_x2 n (init_x1 n pb))"
  by (simp add: Coordinates_ctor_def Let_def fold_geometry_at)

lemma ctor_block_fields:
  "pb_is (pmy_block (Coordinates_ctor A K n new pb)) = pb_is pb"
  "pb_ie (pmy_block (Coordinates_ctor A K n new pb)) = pb_ie pb"
  "pb_js (pmy_block (Coordinates_ctor A K n new pb)) = pb_js pb"
  "pb_je (pmy_block (Coordinates_ctor A K n new pb)) = pb_je pb"
  "pb_ks (pmy_block (Coordinates_ctor A K n new pb)) = pb_ks pb"
  "pb_ke (pmy_block (Coordinates_ctor A K n new pb)) = pb_ke pb"
  "x1f (pmy_block (Coordinates_ctor A K n new pb)) = x1f pb"
  "dx1f (pmy_block (Coordinates_ctor A K n new pb)) = dx1f pb"
  "dx2f (pmy_block (Coordinates_ctor A K n new pb)) = dx2f pb"
  "dx3f (pmy_block (Coordinates_ctor A K n new pb)) = dx3f pb"
  "GetGamma (pmy_block (Coordinates_ctor A K n new pb)) = GetGamma pb"
  by (simp_all add: ctor_block init_frame)

lemma ctor_x1v:
  assumes "pb_is pb - n \<le> i" "i \<le> pb_ie pb + n"
  shows "x1v (pmy_block (Coordinates_ctor A K n new pb)) i = (1/2) * (x1f pb i + x1f pb (i+1))"
  using assms by (simp add: ctor_block init_frame init_x1_x1v)

lemma ctor_entries:
  assumes "pb_is pb - n \<le> i" "i \<le> pb_ie pb + n"
  shows
    "cell_width1_i (Coordinates_ctor A K n new pb) i =
       1 / (4 * (1 + SQR A * SQR K))
         * (2*K*(2 + SQR A * SQR K) * dx1f pb i
            - SQR A * SQR K * (sin (2*K*x1f pb i) - sin (2*K*x1f pb (i+1))))"
    "src_terms_i1 (Coordinates_ctor A K n new pb) i =
       (A*K * cos (K * x1f pb i) - A*K * cos (K * x1f pb (i+1))) / dx1f pb i"
    "metric_cell_i1 (Coordinates_ctor A K n new pb) i =
       1 + SQR A * SQR K * SQR (cos (K * ((1/2) * (x1f pb i + x1f pb (i+1)))))"
    "metric_cell_i2 (Coordinates_ctor A K n new pb) i =
       A*K * cos (K * ((1/2) * (x1f pb i + x1f pb (i+1))))"
    "metric_face1_i1 (Coordinates_ctor A K n new pb) i =
       1 + SQR A * SQR K * SQR (cos (K * x1f pb i))"
    "metric_face1_i2 (Coordinates_ctor A K n new pb) i = A*K * cos (K * x1f pb i)"
    "metric_face2_i1 (Coordinates_ctor A K n new pb) i =
       1 + SQR A * SQR K * SQR (cos (K * ((1/2) * (x1f pb i + x1f pb (i+1)))))"
    "metric_face2_i2 (Coordinates_ctor A K n new pb) i =
       A*K * cos (K * ((1/2) * (x1f pb i + x1f pb (i+1))))"
    "metric_face3_i1 (Coordinates_ctor A K n new pb) i =
       1 + SQR A * SQR K * SQR (cos (K * ((1/2) * (x1f pb i + x1f pb (i+1)))))"
    "metric_face3_i2 (Coordinates_ctor A K n new pb) i =
       A*K * cos (K * ((1/2) * (x1f pb i + x1f pb (i+1))))"
    "trans_face1_i2 (Coordinates_ctor A K n new pb) i = A*K * cos (K * x1f pb i)"
    "trans_face3_i2 (Coordinates_ctor A K n new pb) i = A*K * cos (K * x1f pb i)"
  using assms
  by (simp_all add: Coordinates_ctor_def Let_def fold_geometry_at init_frame init_x1_x1v)

text \<open>
  The body of a \<^verbatim>\<open>PrimToLocal\<close> loop at interface \<open>x\<close> reads and writes the entries of
  interface \<open>x\<close> only, so after the loop the entries of interface \<open>i\<close> are those the body
  computes at \<open>i\<close> from the initial entries of \<open>i\<close>.
\<close>

lemma column_eq_iff:
  "column i s = column i t \<longleftrightarrow>
     (\<forall>n. prim_left s (n, i) = prim_left t (n, i))
   \<and> (\<forall>n. prim_right s (n, i) = prim_right t (n, i))
   \<and> b_normal s i = b_normal t i"
  by (auto simp: column_def fun_eq_iff)

lemma fold_column:
  assumes other: "\<And>x s. x \<noteq> i \<Longrightarrow> column i (body x s) = column i s"
    and same: "\<And>s t. column i s = column i t \<Longrightarrow> column i (body i s) = column i (body i t)"
    and "distinct xs"
  shows "column i (fold body xs s) = (if i \<in> set xs then column i (body i s) else column i s)"
  using \<open>distinct xs\<close>
proof (induction xs arbitrary: s)
  case Nil
  show ?case by simp
next
  case (Cons x xs)
  show ?case
  proof (cases "x = i")
    case True
    with Cons.prems have "i \<notin> set xs" by simp
    with Cons.IH [of "body x s"] Cons.prems True show ?thesis by simp
  next
    case False
    from other [OF False] have "column i (body x s) = column i s" .
    with same have "column i (body i (body x s)) = column i (body i s)" by blast
    with Cons.IH [of "body x s"] Cons.prems False other [OF False, of s] show ?thesis by simp
  qed
qed

lemma PrimToLocal1_at_other:
  "x \<noteq> i \<Longrightarrow> column i (PrimToLocal1_at m c b k j x s) = column i s"
  by (simp add: column_def PrimToLocal1_at_def Let_def)

lemma PrimToLocal1_at_same:
  assumes "column i s = column i t"
  shows "column i (PrimToLocal1_at m c b k j i s) = column i (PrimToLocal1_at m c b k j i t)"
proof -
  from assms have eqs:
    "\<And>n. prim_left s (n, i) = prim_left t (n, i)"
    "\<And>n. prim_right s (n, i) = prim_right t (n, i)"
    "b_normal s i = b_normal t i"
    by (simp_all add: column_eq_iff)
  show ?thesis
    unfolding column_eq_iff
    by (simp add: PrimToLocal1_at_def Let_def eqs)
qed

lemma PrimToLocal3_at_other:
  "x \<noteq> i \<Longrightarrow> column i (PrimToLocal3_at m c b k j x s) = column i s"
  by (simp add: column_def PrimToLocal3_at_def Let_def)

lemma PrimToLocal3_at_same:
  assumes "column i s = column i t"
  shows "column i (PrimToLocal3_at m c b k j i s) = column i (PrimToLocal3_at m c b k j i t)"
proof -
  from assms have eqs:
    "\<And>n. prim_left s (n, i) = prim_left t (n, i)"
    "\<And>n. prim_right s (n, i) = prim_right t (n, i)"
    "b_normal s i = b_normal t i"
    by (simp_all add: column_eq_iff)
  show ?thesis
    unfolding column_eq_iff
    by (simp add: PrimToLocal3_at_def Let_def eqs)
qed

lemma PrimToLocal1_column:
  "column i (PrimToLocal1 m c k j b s) =
     (if pb_is (pmy_block c) \<le> i \<and> i \<le> pb_ie (pmy_block c) + 1
      then column i (PrimToLocal1_at m c b k j i s) else column i s)"
proof -
  have "column i (fold (PrimToLocal1_at m c b k j) xs s) =
          (if i \<in> set xs then column i (PrimToLocal1_at m c b k j i s) else column i s)"
    if "distinct xs" for xs
    using PrimToLocal1_at_other PrimToLocal1_at_same that by (rule fold_column)
  then show ?thesis
    by (simp add: PrimToLocal1_def)
qed

lemma PrimToLocal3_column:
  "column i (PrimToLocal3 m c k j b s) =
     (if pb_is (pmy_block c) \<le> i \<and> i \<le> pb_ie (pmy_block c)
      then column i (PrimToLocal3_at m c b k j i s) else column i s)"
proof -
  have "column i (fold (PrimToLocal3_at m c b k j) xs s) =
          (if i \<in> set xs then column i (PrimToLocal3_at m c b k j i s) else column i s)"
    if "distinct xs" for xs
    using PrimToLocal3_at_other PrimToLocal3_at_same that by (rule fold_column)
  then show ?thesis
    by (simp add: PrimToLocal3_def)
qed

lemma PrimToLocal1_entries:
  "prim_left (PrimToLocal1 m c k j b s) (n, i) =
     (if pb_is (pmy_block c) \<le> i \<and> i \<le> pb_ie (pmy_block c) + 1
      then prim_left (PrimToLocal1_at m c b k j i s) (n, i) else prim_left s (n, i))"
  "prim_right (PrimToLocal1 m c k j b s) (n, i) =
     (if pb_is (pmy_block c) \<le> i \<and> i \<le> pb_ie (pmy_block c) + 1
      then prim_right (PrimToLocal1_at m c b k j i s) (n, i) else prim_right s (n, i))"
  "b_normal (PrimToLocal1 m c k j b s) i =
     (if pb_is (pmy_block c) \<le> i \<and> i \<le> pb_ie (pmy_block c) + 1
      then b_normal (PrimToLocal1_at m c b k j i s) i else b_normal s i)"
  using PrimToLocal1_column [of i m c k j b s]
  by (auto simp: column_eq_iff split: if_splits)

lemma PrimToLocal3_entries:
  "prim_left (PrimToLocal3 m c k j b s) (n, i) =
     (if pb_is (pmy_block c) \<le> i \<and> i \<le> pb_ie (pmy_block c)
      then prim_left (PrimToLocal3_at m c b k j i s) (n, i) else prim_left s (n, i))"
  "prim_right (PrimToLocal3 m c k j b s) (n, i) =
     (if pb_is (pmy_block c) \<le> i \<and> i \<le> pb_ie (pmy_block c)
      then prim_right (PrimToLocal3_at m c b k j i s) (n, i) else prim_right s (n, i))"
  "b_normal (PrimToLocal3 m c k j b s) i =
     (if pb_is (pmy_block c) \<le> i \<and> i \<le> pb_ie (pmy_block c)
      then b_normal (PrimToLocal3_at m c b k j i s) i else b_normal s i)"
  using PrimToLocal3_column [of i m c k j b s]
  by (auto simp: column_eq_iff split: if_splits)

lemma sqrt_normalization_nonzero:
  "d < 0 \<Longrightarrow> sqrt (- 1 / d) \<noteq> 0"
  by simp

lemma PrimToLocal1_at_flat:
  assumes g: "metric_face1_i1 c i = 1" "metric_face1_i2 c i = 0" "trans_face1_i2 c i = 0"
    and l: "prim_left s (IVX, i) * prim_left s (IVX, i) + prim_left s (IVY, i) * prim_left s (IVY, i)
              + prim_left s (IVZ, i) * prim_left s (IVZ, i) < 1"
    and r: "prim_right s (IVX, i) * prim_right s (IVX, i) + prim_right s (IVY, i) * prim_right s (IVY, i)
              + prim_right s (IVZ, i) * prim_right s (IVZ, i) < 1"
  shows "prim_left (PrimToLocal1_at m c b k j i s) (IVX, i) = prim_left s (IVX, i)"
    "prim_left (PrimToLocal1_at m c b k j i s) (IVY, i) = prim_left s (IVY, i)"
    "prim_left (PrimToLocal1_at m c b k j i s) (IVZ, i) = prim_left s (IVZ, i)"
    "prim_right (PrimToLocal1_at m c b k j i s) (IVX, i) = prim_right s (IVX, i)"
    "prim_right (PrimToLocal1_at m c b k j i s) (IVY, i) = prim_right s (IVY, i)"
    "prim_right (PrimToLocal1_at m c b k j i s) (IVZ, i) = prim_right s (IVZ, i)"
proof -
  from l have "sqrt (- 1 / (- 1 + prim_left s (IVX, i) * prim_left s (IVX, i)
      + prim_left s (IVY, i) * prim_left s (IVY, i)
      + prim_left s (IVZ, i) * prim_left s (IVZ, i))) \<noteq> 0"
    by (intro sqrt_normalization_nonzero) linarith
  moreover from r have "sqrt (- 1 / (- 1 + prim_right s (IVX, i) * prim_right s (IVX, i)
      + prim_right s (IVY, i) * prim_right s (IVY, i)
      + prim_right s (IVZ, i) * prim_right s (IVZ, i))) \<noteq> 0"
    by (intro sqrt_normalization_nonzero) linarith
  ultimately show
    "prim_left (PrimToLocal1_at m c b k j i s) (IVX, i) = prim_left s (IVX, i)"
    "prim_left (PrimToLocal1_at m c b k j i s) (IVY, i) = prim_left s (IVY, i)"
    "prim_left (PrimToLocal1_at m c b k j i s) (IVZ, i) = prim_left s (IVZ, i)"
    "prim_right (PrimToLocal1_at m c b k j i s) (IVX, i) = prim_right s (IVX, i)"
    "prim_right (PrimToLocal1_at m c b k j i s) (IVY, i) = prim_right s (IVY, i)"
    "prim_right (PrimToLocal1_at m c b k j i s) (IVZ, i) = prim_right s (IVZ, i)"
    by (simp_all add: PrimToLocal1_at_def Let_def g)
qed

text \<open>The example block and the entries of its coordinates at cell 2.\<close>

lemma mb_ex_faces:
  "x1f mb_ex 2 = 0" "x1f mb_ex 3 = 5 * pi" "dx1f mb_ex 2 = 5 * pi"
  "pb_is mb_ex = 2" "pb_ie mb_ex = 5"
  by (simp_all add: mb_ex_def)

lemma coords_ex_cell2:
  "cell_width1_i coords_ex 2 = 3 * pi / 8"
  "src_terms_i1 coords_ex 2 = 1 / (5 * pi)"
  "metric_cell_i1 coords_ex 2 = 3 / 2"
  "metric_cell_i2 coords_ex 2 = sqrt 2 / 2"
  "metric_face3_i1 coords_ex 2 = 3 / 2"
  "metric_face3_i2 coords_ex 2 = sqrt 2 / 2"
  "trans_face1_i2 coords_ex 2 = 1"
  "trans_face3_i2 coords_ex 2 = 1"
proof -
  have r: "pb_is mb_ex - 2 \<le> 2" "2 \<le> pb_ie mb_ex + 2"
    by (simp_all add: mb_ex_def)
  have c: "cos (pi / 4) = sqrt 2 / 2" by (rule cos_45)
  show "cell_width1_i coords_ex 2 = 3 * pi / 8"
    "src_terms_i1 coords_ex 2 = 1 / (5 * pi)"
    "metric_cell_i1 coords_ex 2 = 3 / 2"
    "metric_cell_i2 coords_ex 2 = sqrt 2 / 2"
    "metric_face3_i1 coords_ex 2 = 3 / 2"
    "metric_face3_i2 coords_ex 2 = sqrt 2 / 2"
    "trans_face1_i2 coords_ex 2 = 1"
    "trans_face3_i2 coords_ex 2 = 1"
    unfolding coords_ex_def ctor_entries [OF r]
    by (simp_all add: globals_A_def globals_K_def mb_ex_faces SQR_def c)
qed

text \<open>The loop of \<^verbatim>\<open>CellVolume\<close>, entry by entry.\<close>

lemma CellVolume_entries:
  "CellVolume c k j il iu volumes i =
     (if il \<le> i \<and> i \<le> iu
      then dx1f (pmy_block c) i * dx2f (pmy_block c) j * dx3f (pmy_block c) k
      else volumes i)"
proof -
  have "fold (\<lambda>i v. v(i := f i)) xs v i = (if i \<in> set xs then f i else v i)"
    for f :: "int \<Rightarrow> real" and xs v
    by (induction xs arbitrary: v) simp_all
  then show ?thesis
    by (simp add: CellVolume_def Let_def)
qed

text \<open>
  The loop of a metric provider, entry by entry, and the product of the two matrices it
  stores at an index where the pair satisfies \<open>alpha_sq = 1 + beta^2\<close>; the pairs the
  constructor stores do.
\<close>

lemma fold_metric_terms:
  assumes f: "\<And>i g g_inv. f i (g, g_inv) = set_metric_terms (a i) (b i) i (g, g_inv)"
  shows "fold f xs (g, g_inv) =
     ((\<lambda>(n, i). if i \<in> set xs
         then (case n of I00 \<Rightarrow> - 1 | I11 \<Rightarrow> a i | I12 \<Rightarrow> - b i | I22 \<Rightarrow> 1 | I33 \<Rightarrow> 1)
         else g (n, i)),
      (\<lambda>(n, i). if i \<in> set xs
         then (case n of I00 \<Rightarrow> - 1 | I11 \<Rightarrow> 1 | I12 \<Rightarrow> b i | I22 \<Rightarrow> a i | I33 \<Rightarrow> 1)
         else g_inv (n, i)))"
proof (induction xs arbitrary: g g_inv)
  case Nil
  show ?case by simp
next
  case (Cons x xs)
  have "fold f (x # xs) (g, g_inv) = fold f xs (set_metric_terms (a x) (b x) x (g, g_inv))"
    by (simp add: f)
  also have "set_metric_terms (a x) (b x) x (g, g_inv) =
      (g((I00, x) := - 1, (I11, x) := a x, (I12, x) := - b x, (I22, x) := 1, (I33, x) := 1),
       g_inv((I00, x) := - 1, (I11, x) := 1, (I12, x) := b x, (I22, x) := a x, (I33, x) := 1))"
    by (simp add: set_metric_terms_def)
  finally show ?case
    unfolding Cons.IH
    by (auto simp: fun_eq_iff split: metric_index.splits)
qed

lemma metric_pair_matrices:
  assumes f: "\<And>i g g_inv. f i (g, g_inv) = set_metric_terms (a i) (b i) i (g, g_inv)"
    and "i \<in> set xs"
  shows "metric_matrix (fst (fold f xs gg)) i =
           [[- 1, 0, 0, 0], [0, a i, - b i, 0], [0, - b i, 1, 0], [0, 0, 0, 1]]"
    and "metric_matrix (snd (fold f xs gg)) i =
           [[- 1, 0, 0, 0], [0, 1, b i, 0], [0, b i, a i, 0], [0, 0, 0, 1]]"
proof -
  obtain g g_inv where gg: "gg = (g, g_inv)" by (cases gg)
  show "metric_matrix (fst (fold f xs gg)) i =
           [[- 1, 0, 0, 0], [0, a i, - b i, 0], [0, - b i, 1, 0], [0, 0, 0, 1]]"
    and "metric_matrix (snd (fold f xs gg)) i =
           [[- 1, 0, 0, 0], [0, 1, b i, 0], [0, b i, a i, 0], [0, 0, 0, 1]]"
    unfolding gg fold_metric_terms [of f a b, OF f]
    using assms(2)
    by (simp_all add: metric_matrix_def)
qed

lemma inverse_pair_product:
  assumes "alpha_sq = 1 + beta * beta"
  shows "mat_mul [[- 1, 0, 0, 0], [0, alpha_sq, - beta, 0], [0, - beta, 1, 0], [0, 0, 0, 1]]
                 [[- 1, 0, 0, 0], [0, 1, beta, 0], [0, beta, alpha_sq, 0], [0, 0, 0, 1]]
           = identity4"
  using assms by (simp add: mat_mul_def identity4_def algebra_simps)

lemma metric_pair_product:
  assumes f: "\<And>i g g_inv. f i (g, g_inv) = set_metric_terms (a i) (b i) i (g, g_inv)"
    and "i \<in> set xs" and "a i = 1 + b i * b i"
  shows "metric_matrix (fst (fold f xs gg)) i =
           [[- 1, 0, 0, 0], [0, a i, - b i, 0], [0, - b i, 1, 0], [0, 0, 0, 1]]
       \<and> metric_matrix (snd (fold f xs gg)) i =
           [[- 1, 0, 0, 0], [0, 1, b i, 0], [0, b i, a i, 0], [0, 0, 0, 1]]
       \<and> mat_mul (metric_matrix (fst (fold f xs gg)) i)
                 (metric_matrix (snd (fold f xs gg)) i) = identity4"
  unfolding metric_pair_matrices [of f a b, OF f assms(2)]
  using inverse_pair_product [OF assms(3)] by simp

lemma ctor_pairs:
  assumes "pb_is pb - n \<le> i" "i \<le> pb_ie pb + n"
  shows
    "metric_cell_i1 (Coordinates_ctor A K n new pb) i
       = 1 + metric_cell_i2 (Coordinates_ctor A K n new pb) i
             * metric_cell_i2 (Coordinates_ctor A K n new pb) i"
    "metric_face1_i1 (Coordinates_ctor A K n new pb) i
       = 1 + metric_face1_i2 (Coordinates_ctor A K n new pb) i
             * metric_face1_i2 (Coordinates_ctor A K n new pb) i"
    "metric_face2_i1 (Coordinates_ctor A K n new pb) i
       = 1 + metric_face2_i2 (Coordinates_ctor A K n new pb) i
             * metric_face2_i2 (Coordinates_ctor A K n new pb) i"
    "metric_face3_i1 (Coordinates_ctor A K n new pb) i
       = 1 + metric_face3_i2 (Coordinates_ctor A K n new pb) i
             * metric_face3_i2 (Coordinates_ctor A K n new pb) i"
  by (simp_all add: ctor_entries [OF assms] SQR_def algebra_simps)

text \<open>
  The three nested loops of \<^verbatim>\<open>CoordinateSourceTerms\<close>: every cell is visited once, and
  the body reads \<open>prim\<close> and its own entry of \<open>cons\<close> only.
\<close>

lemma fold_add_source_i:
  assumes "distinct xs"
  shows "fold (add_source dt c g k j) xs s =
     s\<lparr>cons := (\<lambda>(n, k', j', i').
          if n = IM1 \<and> k' = k \<and> j' = j \<and> i' \<in> set xs
          then cons s (n, k', j', i') + dt * source_s1 c g (prim s) k' j' i'
          else cons s (n, k', j', i'))\<rparr>"
  using assms
proof (induction xs arbitrary: s)
  case Nil
  show ?case by simp
next
  case (Cons x xs)
  then have IH: "fold (add_source dt c g k j) xs t =
     t\<lparr>cons := (\<lambda>(n, k', j', i').
          if n = IM1 \<and> k' = k \<and> j' = j \<and> i' \<in> set xs
          then cons t (n, k', j', i') + dt * source_s1 c g (prim t) k' j' i'
          else cons t (n, k', j', i'))\<rparr>" for t
    by simp
  from Cons.prems have "x \<notin> set xs" by simp
  then show ?case
    unfolding fold_simps comp_apply IH
    by (intro fluid_arrays.equality) (auto simp: add_source_def Let_def fun_eq_iff)
qed

lemma fold_add_source_j:
  assumes "distinct ys" and "distinct xs"
  shows "fold (\<lambda>j. fold (add_source dt c g k j) xs) ys s =
     s\<lparr>cons := (\<lambda>(n, k', j', i').
          if n = IM1 \<and> k' = k \<and> j' \<in> set ys \<and> i' \<in> set xs
          then cons s (n, k', j', i') + dt * source_s1 c g (prim s) k' j' i'
          else cons s (n, k', j', i'))\<rparr>"
  using assms(1)
proof (induction ys arbitrary: s)
  case Nil
  show ?case by simp
next
  case (Cons y ys)
  then have IH: "fold (\<lambda>j. fold (add_source dt c g k j) xs) ys t =
     t\<lparr>cons := (\<lambda>(n, k', j', i').
          if n = IM1 \<and> k' = k \<and> j' \<in> set ys \<and> i' \<in> set xs
          then cons t (n, k', j', i') + dt * source_s1 c g (prim t) k' j' i'
          else cons t (n, k', j', i'))\<rparr>" for t
    by simp
  from Cons.prems have "y \<notin> set ys" by simp
  then show ?case
    unfolding fold_simps comp_apply IH
    unfolding fold_add_source_i [OF assms(2)]
    by (intro fluid_arrays.equality) (auto simp: fun_eq_iff)
qed

lemma fold_add_source_k:
  assumes "distinct zs" and "distinct ys" and "distinct xs"
  shows "fold (\<lambda>k. fold (\<lambda>j. fold (add_source dt c g k j) xs) ys) zs s =
     s\<lparr>cons := (\<lambda>(n, k', j', i').
          if n = IM1 \<and> k' \<in> set zs \<and> j' \<in> set ys \<and> i' \<in> set xs
          then cons s (n, k', j', i') + dt * source_s1 c g (prim s) k' j' i'
          else cons s (n, k', j', i'))\<rparr>"
  using assms(1)
proof (induction zs arbitrary: s)
  case Nil
  show ?case by simp
next
  case (Cons z zs)
  then have IH: "fold (\<lambda>k. fold (\<lambda>j. fold (add_source dt c g k j) xs) ys) zs t =
     t\<lparr>cons := (\<lambda>(n, k', j', i').
          if n = IM1 \<and> k' \<in> set zs \<and> j' \<in> set ys \<and> i' \<in> set xs
          then cons t (n, k', j', i') + dt * source_s1 c g (prim t) k' j' i'
          else cons t (n, k', j', i'))\<rparr>" for t
    by simp
  from Cons.prems have "z \<notin> set zs" by simp
  then show ?case
    unfolding fold_simps comp_apply IH
    unfolding fold_add_source_j [OF assms(2,3)]
    by (intro fluid_arrays.equality) (auto simp: fun_eq_iff)
qed

lemma CoordinateSourceTerms_closed:
  "CoordinateSourceTerms dt c s =
     s\<lparr>cons := (\<lambda>(n, k, j, i).
          if n = IM1
             \<and> pb_ks (pmy_block c) \<le> k \<and> k \<le> pb_ke (pmy_block c)
             \<and> pb_js (pmy_block c) \<le> j \<and> j \<le> pb_je (pmy_block c)
             \<and> pb_is (pmy_block c) \<le> i \<and> i \<le> pb_ie (pmy_block c)
          then cons s (n, k, j, i)
               + dt * source_s1 c (GetGamma (pmy_block c) / (GetGamma (pmy_block c) - 1))
                        (prim s) k j i
          else cons s (n, k, j, i))\<rparr>"
  by (simp add: CoordinateSourceTerms_def Let_def fold_add_source_k)

text \<open>
  The example fluid in cell \<open>(0, 0, 2)\<close> of the example block: with \<open>g11 = 3/2\<close> and
  \<open>v = (4/5, 0, 0)\<close> the normalization gives \<open>u0 = 5\<close>.
\<close>

lemma sqrt_25: "sqrt 25 = 5"
proof -
  have "sqrt (5 * 5) = \<bar>5::real\<bar>" by (rule real_sqrt_abs2)
  then show ?thesis by simp
qed

lemma coords_ex_block:
  "pb_is (pmy_block coords_ex) = 2" "pb_ie (pmy_block coords_ex) = 5"
  "pb_js (pmy_block coords_ex) = 0" "pb_je (pmy_block coords_ex) = 0"
  "pb_ks (pmy_block coords_ex) = 0" "pb_ke (pmy_block coords_ex) = 0"
  "GetGamma (pmy_block coords_ex) = 2"
  "dx1f (pmy_block coords_ex) = (\<lambda>i. 5 * pi)"
  "dx2f (pmy_block coords_ex) = (\<lambda>j. 1)"
  "dx3f (pmy_block coords_ex) = (\<lambda>k. 1)"
  by (simp_all add: coords_ex_def ctor_block_fields mb_ex_def)

lemma source_s1_ex:
  "source_s1 coords_ex 2 (prim fluid_ex) 0 0 2 = 24 * sqrt 2 / (5 * pi)"
  by (simp add: source_s1_def Let_def coords_ex_cell2 fluid_ex_def sqrt_25)


section \<open>Metric positivity\<close>

text \<open>
  Claim C9. For all chart parameters \<open>a\<close> and \<open>k\<close> and every position \<open>x\<close>, the scalar
  \<open>1 + a^2 k^2 cos^2(k x)\<close> is at least 1; and every value the constructor writes into
  the cell-centered and the three face-centered \<open>alphaSquared\<close> arrays, that is at
  every index from \<open>is - NGHOST\<close> to \<open>ie + NGHOST\<close>, is at least 1.
\<close>

theorem alpha_squared_at_least_one:
  "1 \<le> 1 + SQR a * SQR k * SQR (cos (k * x))
   \<and> (pb_is pb - n \<le> i \<and> i \<le> pb_ie pb + n \<longrightarrow>
        1 \<le> metric_cell_i1 (Coordinates_ctor a k n new pb) i
      \<and> 1 \<le> metric_face1_i1 (Coordinates_ctor a k n new pb) i
      \<and> 1 \<le> metric_face2_i1 (Coordinates_ctor a k n new pb) i
      \<and> 1 \<le> metric_face3_i1 (Coordinates_ctor a k n new pb) i)"
proof -
  have sq: "0 \<le> SQR a * SQR k * SQR y" for y
    by (simp add: SQR_def)
  show ?thesis
    by (simp add: ctor_entries sq)
qed

text \<open>The example block at the parameters of the source, cell 2, position 0.\<close>

theorem alpha_squared_at_least_one_witness:
  "1 \<le> 1 + SQR globals_A * SQR globals_K * SQR (cos (globals_K * 0))
   \<and> pb_is mb_ex - 2 \<le> 2 \<and> 2 \<le> pb_ie mb_ex + 2
   \<and> 1 \<le> metric_cell_i1 coords_ex 2
   \<and> 1 \<le> metric_face1_i1 coords_ex 2
   \<and> 1 \<le> metric_face2_i1 coords_ex 2
   \<and> 1 \<le> metric_face3_i1 coords_ex 2"
  using alpha_squared_at_least_one
    [where a = globals_A and k = globals_K and x = 0 and n = 2 and i = 2
       and pb = mb_ex and new = "\<lambda>n i. 0"]
  by (simp add: coords_ex_def mb_ex_def)

section \<open>The frame transform where the chart is orthogonal\<close>

text \<open>
  Claim C7. At an index \<open>i\<close> where \<open>cos (K * x1f i) = 0\<close>, the pair the constructor
  stores for face 1 is \<open>beta = 0\<close> and \<open>alphaSquared = 1\<close>, and \<^verbatim>\<open>PrimToLocal1\<close> leaves
  the three velocity components of the left and of the right state at \<open>i\<close> unchanged,
  for all input velocities with \<open>v1^2 + v2^2 + v3^2 < 1\<close> (subluminal in that metric),
  with or without magnetic fields. The index ranges over what the constructor computed,
  \<open>is - NGHOST\<close> to \<open>ie + NGHOST\<close>, which contains every interface of the loop of
  \<^verbatim>\<open>PrimToLocal1\<close> as soon as \<open>NGHOST\<close> is at least 1.
\<close>

theorem PrimToLocal1_identity_where_cos_vanishes:
  assumes "pb_is pb - n \<le> i" and "i \<le> pb_ie pb + n"
    and "cos (K * x1f pb i) = 0"
    and "prim_left s (IVX, i) * prim_left s (IVX, i) + prim_left s (IVY, i) * prim_left s (IVY, i)
           + prim_left s (IVZ, i) * prim_left s (IVZ, i) < 1"
    and "prim_right s (IVX, i) * prim_right s (IVX, i) + prim_right s (IVY, i) * prim_right s (IVY, i)
           + prim_right s (IVZ, i) * prim_right s (IVZ, i) < 1"
  shows "metric_face1_i2 (Coordinates_ctor A K n new pb) i = 0
    \<and> metric_face1_i1 (Coordinates_ctor A K n new pb) i = 1
    \<and> prim_left (PrimToLocal1 m (Coordinates_ctor A K n new pb) k j b s) (IVX, i) = prim_left s (IVX, i)
    \<and> prim_left (PrimToLocal1 m (Coordinates_ctor A K n new pb) k j b s) (IVY, i) = prim_left s (IVY, i)
    \<and> prim_left (PrimToLocal1 m (Coordinates_ctor A K n new pb) k j b s) (IVZ, i) = prim_left s (IVZ, i)
    \<and> prim_right (PrimToLocal1 m (Coordinates_ctor A K n new pb) k j b s) (IVX, i) = prim_right s (IVX, i)
    \<and> prim_right (PrimToLocal1 m (Coordinates_ctor A K n new pb) k j b s) (IVY, i) = prim_right s (IVY, i)
    \<and> prim_right (PrimToLocal1 m (Coordinates_ctor A K n new pb) k j b s) (IVZ, i) = prim_right s (IVZ, i)"
proof -
  let ?c = "Coordinates_ctor A K n new pb"
  have g: "metric_face1_i1 ?c i = 1" "metric_face1_i2 ?c i = 0" "trans_face1_i2 ?c i = 0"
    using assms(1-3) by (simp_all add: ctor_entries SQR_def)
  note flat = PrimToLocal1_at_flat [OF g assms(4,5)]
  show ?thesis
    by (simp add: g PrimToLocal1_entries flat)
qed

text \<open>
  Interface 3 of the example block lies at \<open>x = 5 pi\<close>, where \<open>K x = pi / 2\<close>; the moving
  state has the velocity \<open>(1/2, 1/4, 1/8)\<close> on both sides.
\<close>

theorem PrimToLocal1_identity_where_cos_vanishes_witness:
  "pb_is mb_ex - 2 \<le> 3 \<and> 3 \<le> pb_ie mb_ex + 2
   \<and> cos (globals_K * x1f mb_ex 3) = 0
   \<and> prim_left moving_ex (IVX, 3) * prim_left moving_ex (IVX, 3)
       + prim_left moving_ex (IVY, 3) * prim_left moving_ex (IVY, 3)
       + prim_left moving_ex (IVZ, 3) * prim_left moving_ex (IVZ, 3) < 1
   \<and> prim_right moving_ex (IVX, 3) * prim_right moving_ex (IVX, 3)
       + prim_right moving_ex (IVY, 3) * prim_right moving_ex (IVY, 3)
       + prim_right moving_ex (IVZ, 3) * prim_right moving_ex (IVZ, 3) < 1
   \<and> metric_face1_i2 coords_ex 3 = 0
   \<and> metric_face1_i1 coords_ex 3 = 1
   \<and> prim_left (PrimToLocal1 True coords_ex 0 0 (\<lambda>kji. 1) moving_ex) (IVX, 3) = 1/2
   \<and> prim_left (PrimToLocal1 True coords_ex 0 0 (\<lambda>kji. 1) moving_ex) (IVY, 3) = 1/4
   \<and> prim_left (PrimToLocal1 True coords_ex 0 0 (\<lambda>kji. 1) moving_ex) (IVZ, 3) = 1/8
   \<and> prim_right (PrimToLocal1 True coords_ex 0 0 (\<lambda>kji. 1) moving_ex) (IVX, 3) = 1/2
   \<and> prim_right (PrimToLocal1 True coords_ex 0 0 (\<lambda>kji. 1) moving_ex) (IVY, 3) = 1/4
   \<and> prim_right (PrimToLocal1 True coords_ex 0 0 (\<lambda>kji. 1) moving_ex) (IVZ, 3) = 1/8"
proof -
  have h1: "pb_is mb_ex - 2 \<le> 3" and h2: "3 \<le> pb_ie mb_ex + 2"
    by (simp_all add: mb_ex_def)
  have h3: "cos (globals_K * x1f mb_ex 3) = 0"
    by (simp add: globals_K_def mb_ex_def)
  have h4: "prim_left moving_ex (IVX, 3) * prim_left moving_ex (IVX, 3)
       + prim_left moving_ex (IVY, 3) * prim_left moving_ex (IVY, 3)
       + prim_left moving_ex (IVZ, 3) * prim_left moving_ex (IVZ, 3) < 1"
    and h5: "prim_right moving_ex (IVX, 3) * prim_right moving_ex (IVX, 3)
       + prim_right moving_ex (IVY, 3) * prim_right moving_ex (IVY, 3)
       + prim_right moving_ex (IVZ, 3) * prim_right moving_ex (IVZ, 3) < 1"
    by (simp_all add: moving_ex_def)
  have vals: "prim_left moving_ex (IVX, 3) = 1/2" "prim_left moving_ex (IVY, 3) = 1/4"
    "prim_left moving_ex (IVZ, 3) = 1/8" "prim_right moving_ex (IVX, 3) = 1/2"
    "prim_right moving_ex (IVY, 3) = 1/4" "prim_right moving_ex (IVZ, 3) = 1/8"
    by (simp_all add: moving_ex_def)
  from PrimToLocal1_identity_where_cos_vanishes
    [OF h1 h2 h3 h4 h5, where A = globals_A and new = "\<lambda>n i. 0" and m = True and k = 0
       and j = 0 and b = "\<lambda>kji. 1"]
  show ?thesis
    using h1 h2 h3 h4 h5 by (simp add: coords_ex_def vals)
qed

section \<open>The rotation coefficient of face 3\<close>

text \<open>
  Claim C10. At every index \<open>i\<close> the constructor visits, the face-3 rotation coefficient
  is \<open>beta\<close> at the face position \<open>x1f i\<close>, the same value as the face-1 coefficient,
  while the face-3 metric pair stores \<open>beta\<close> at the cell center \<open>x1v i\<close>, the midpoint
  of the two faces. So \<^verbatim>\<open>PrimToLocal3\<close> normalizes the four-velocity with the metric
  of the cell center and rotates it with the coefficient of the lower x1 face: the
  velocity it writes to the slot \<^verbatim>\<open>IVY\<close> of the left state is
  \<open>(- beta_m u1 + u2) / u0\<close> with \<open>u0\<close> computed from \<open>alpha_sq_c\<close> and \<open>beta_c\<close>.
\<close>

theorem face3_rotation_coefficient_is_face_centered:
  "(pb_is pb - n \<le> i \<and> i \<le> pb_ie pb + n \<longrightarrow>
      trans_face3_i2 (Coordinates_ctor A K n new pb) i = A*K * cos (K * x1f pb i)
    \<and> trans_face3_i2 (Coordinates_ctor A K n new pb) i
        = trans_face1_i2 (Coordinates_ctor A K n new pb) i
    \<and> metric_face3_i2 (Coordinates_ctor A K n new pb) i
        = A*K * cos (K * x1v (pmy_block (Coordinates_ctor A K n new pb)) i)
    \<and> x1v (pmy_block (Coordinates_ctor A K n new pb)) i = (1/2) * (x1f pb i + x1f pb (i+1)))
   \<and> (0 \<le> n \<and> pb_is pb \<le> i \<and> i \<le> pb_ie pb \<longrightarrow>
      prim_left (PrimToLocal3 m (Coordinates_ctor A K n new pb) k j b s) (IVY, i) =
        (let beta_c = A*K * cos (K * ((1/2) * (x1f pb i + x1f pb (i+1))));
             beta_m = A*K * cos (K * x1f pb i);
             alpha_sq_c = 1 + SQR A * SQR K * SQR (cos (K * ((1/2) * (x1f pb i + x1f pb (i+1)))));
             v1 = prim_left s (IVX, i);
             v2 = prim_left s (IVY, i);
             v3 = prim_left s (IVZ, i);
             u0 = sqrt (- 1 / (- 1 + alpha_sq_c*v1*v1 + 2*(- beta_c)*v1*v2 + v2*v2 + v3*v3))
         in (- beta_m * (u0 * v1) + u0 * v2) / u0))"
proof -
  let ?c = "Coordinates_ctor A K n new pb"
  have part1: "trans_face3_i2 ?c i = A*K * cos (K * x1f pb i)
    \<and> trans_face3_i2 ?c i = trans_face1_i2 ?c i
    \<and> metric_face3_i2 ?c i = A*K * cos (K * x1v (pmy_block ?c) i)
    \<and> x1v (pmy_block ?c) i = (1/2) * (x1f pb i + x1f pb (i+1))"
    if "pb_is pb - n \<le> i" "i \<le> pb_ie pb + n"
    using that by (simp add: ctor_entries ctor_x1v)
  have part2: "prim_left (PrimToLocal3 m ?c k j b s) (IVY, i) =
        (let beta_c = A*K * cos (K * ((1/2) * (x1f pb i + x1f pb (i+1))));
             beta_m = A*K * cos (K * x1f pb i);
             alpha_sq_c = 1 + SQR A * SQR K * SQR (cos (K * ((1/2) * (x1f pb i + x1f pb (i+1)))));
             v1 = prim_left s (IVX, i);
             v2 = prim_left s (IVY, i);
             v3 = prim_left s (IVZ, i);
             u0 = sqrt (- 1 / (- 1 + alpha_sq_c*v1*v1 + 2*(- beta_c)*v1*v2 + v2*v2 + v3*v3))
         in (- beta_m * (u0 * v1) + u0 * v2) / u0)"
    if "0 \<le> n" "pb_is pb \<le> i" "i \<le> pb_ie pb"
  proof -
    from that have r: "pb_is pb - n \<le> i" "i \<le> pb_ie pb + n" by simp_all
    show ?thesis
      using that
      by (simp add: PrimToLocal3_entries ctor_block_fields ctor_entries [OF r]
          PrimToLocal3_at_def Let_def)
  qed
  from part1 part2 show ?thesis by blast
qed

text \<open>
  Cell 2 of the example block: the lower face at \<open>x = 0\<close> gives the rotation coefficient
  1, the center at \<open>x = 5 pi / 2\<close> gives the metric entry \<open>sqrt 2 / 2\<close>, and the moving
  state \<open>(1/2, 1/4, 1/8)\<close> gets \<open>(- 1 * 1/2 + 1/4) = - 1/4\<close> in its slot \<^verbatim>\<open>IVY\<close>.
\<close>

theorem face3_rotation_coefficient_is_face_centered_witness:
  "pb_is mb_ex - 2 \<le> 2 \<and> 2 \<le> pb_ie mb_ex + 2
   \<and> (0::int) \<le> 2 \<and> pb_is mb_ex \<le> 2 \<and> 2 \<le> pb_ie mb_ex
   \<and> trans_face3_i2 coords_ex 2 = globals_A * globals_K * cos (globals_K * x1f mb_ex 2)
   \<and> trans_face3_i2 coords_ex 2 = trans_face1_i2 coords_ex 2
   \<and> metric_face3_i2 coords_ex 2
        = globals_A * globals_K * cos (globals_K * x1v (pmy_block coords_ex) 2)
   \<and> x1v (pmy_block coords_ex) 2 = (1/2) * (x1f mb_ex 2 + x1f mb_ex (2 + 1))
   \<and> trans_face3_i2 coords_ex 2 = 1
   \<and> metric_face3_i2 coords_ex 2 = sqrt 2 / 2
   \<and> prim_left (PrimToLocal3 False coords_ex 0 0 (\<lambda>kji. 1) moving_ex) (IVY, 2) = - (1/4)"
proof -
  have h: "pb_is mb_ex - 2 \<le> 2 \<and> 2 \<le> pb_ie mb_ex + 2"
    "(0::int) \<le> 2 \<and> pb_is mb_ex \<le> 2 \<and> 2 \<le> pb_ie mb_ex"
    by (simp_all add: mb_ex_def)
  have vals: "prim_left moving_ex (IVX, 2) = 1/2" "prim_left moving_ex (IVY, 2) = 1/4"
    "prim_left moving_ex (IVZ, 2) = 1/8"
    by (simp_all add: moving_ex_def)
  have c: "cos (pi / 4) = sqrt 2 / 2" by (rule cos_45)
  have "- (35 / 8) < sqrt 2"
    by (rule less_le_trans [of _ 0]) simp_all
  then have neg: "- 1 + 3 / 2 * (1/2) * (1/2) + 2 * (- (sqrt 2 / 2)) * (1/2) * (1/4)
      + (1/4) * (1/4) + (1/8) * (1/8) < (0::real)"
    by simp
  have nz: "sqrt (- 1 / (- 1 + 3 / 2 * (1/2) * (1/2) + 2 * (- (sqrt 2 / 2)) * (1/2) * (1/4)
      + (1/4) * (1/4) + (1/8) * (1/8))) \<noteq> 0"
    using neg by (rule sqrt_normalization_nonzero)
  from face3_rotation_coefficient_is_face_centered
    [where pb = mb_ex and n = 2 and i = 2 and A = globals_A and K = globals_K
       and new = "\<lambda>n i. 0" and m = False and k = 0 and j = 0 and b = "\<lambda>kji. 1"
       and s = moving_ex]
  have inst: "trans_face3_i2 coords_ex 2 = globals_A * globals_K * cos (globals_K * x1f mb_ex 2)"
    "trans_face3_i2 coords_ex 2 = trans_face1_i2 coords_ex 2"
    "metric_face3_i2 coords_ex 2
        = globals_A * globals_K * cos (globals_K * x1v (pmy_block coords_ex) 2)"
    "x1v (pmy_block coords_ex) 2 = (1/2) * (x1f mb_ex 2 + x1f mb_ex (2 + 1))"
    "prim_left (PrimToLocal3 False coords_ex 0 0 (\<lambda>kji. 1) moving_ex) (IVY, 2) =
       (let beta_c = globals_A * globals_K * cos (globals_K * ((1/2) * (x1f mb_ex 2 + x1f mb_ex (2+1))));
             beta_m = globals_A * globals_K * cos (globals_K * x1f mb_ex 2);
             alpha_sq_c = 1 + SQR globals_A * SQR globals_K
                * SQR (cos (globals_K * ((1/2) * (x1f mb_ex 2 + x1f mb_ex (2+1)))));
             v1 = prim_left moving_ex (IVX, 2);
             v2 = prim_left moving_ex (IVY, 2);
             v3 = prim_left moving_ex (IVZ, 2);
             u0 = sqrt (- 1 / (- 1 + alpha_sq_c*v1*v1 + 2*(- beta_c)*v1*v2 + v2*v2 + v3*v3))
         in (- beta_m * (u0 * v1) + u0 * v2) / u0)"
    using h unfolding coords_ex_def by blast+
  have bc: "globals_A * globals_K * cos (globals_K * ((1/2) * (x1f mb_ex 2 + x1f mb_ex (2+1)))) = sqrt 2 / 2"
    and bm: "globals_A * globals_K * cos (globals_K * x1f mb_ex 2) = 1"
    and al: "1 + SQR globals_A * SQR globals_K
                * SQR (cos (globals_K * ((1/2) * (x1f mb_ex 2 + x1f mb_ex (2+1))))) = 3 / 2"
    by (simp_all add: globals_A_def globals_K_def mb_ex_faces SQR_def c)
  have out: "prim_left (PrimToLocal3 False coords_ex 0 0 (\<lambda>kji. 1) moving_ex) (IVY, 2) = - (1/4)"
    unfolding inst(5) Let_def bc bm al vals
    using nz by (simp add: field_simps)
  show ?thesis
    using h inst(1-4) out coords_ex_cell2(6,8) by blast
qed

section \<open>Left and right states in the x3 sweep\<close>

text \<open>
  Claim C6 says that \<^verbatim>\<open>PrimToLocal3\<close> treats the left and the right state alike. With
  magnetic fields enabled it does not: the left state gets the local x and y components
  in its slots \<^verbatim>\<open>IBY\<close> and \<^verbatim>\<open>IBZ\<close> ("puts Bx/By in IBY/IBZ slots", as the
  comment of the function says), the right state the local y and z components. For the
  fluid at rest of the example, with equal left and right inputs (tangential slots 3
  and 7), normal field 1 and rotation coefficient 1 at interface 2, the left slots
  become 1 and 3 and the right slots 3 and 4.
\<close>

theorem PrimToLocal3_right_state_slots:
  "prim_left rest_ex = prim_right rest_ex
   \<and> prim_left (PrimToLocal3 True coords_ex 0 0 (\<lambda>kji. 1) rest_ex) (IBY, 2) = 1
   \<and> prim_left (PrimToLocal3 True coords_ex 0 0 (\<lambda>kji. 1) rest_ex) (IBZ, 2) = 3
   \<and> prim_right (PrimToLocal3 True coords_ex 0 0 (\<lambda>kji. 1) rest_ex) (IBY, 2) = 3
   \<and> prim_right (PrimToLocal3 True coords_ex 0 0 (\<lambda>kji. 1) rest_ex) (IBZ, 2) = 4"
proof -
  have r: "pb_is mb_ex - 2 \<le> 2" "2 \<le> pb_ie mb_ex + 2"
    by (simp_all add: mb_ex_def)
  have t: "trans_face3_i2 coords_ex 2 = 1"
    unfolding coords_ex_def ctor_entries [OF r]
    by (simp add: globals_A_def globals_K_def mb_ex_def)
  have b: "pb_is (pmy_block coords_ex) = 2" "pb_ie (pmy_block coords_ex) = 5"
    by (simp_all add: coords_ex_def ctor_block_fields mb_ex_def)
  show ?thesis
    by (simp add: PrimToLocal3_entries b PrimToLocal3_at_def Let_def t rest_ex_def)
qed

section \<open>Cell volumes\<close>

text \<open>
  Claim C4 says that the width along x1 entering the volume is the precomputed
  \<open>cellWidth\<close>. It is not: for cell 2 of the example block \<^verbatim>\<open>CellVolume\<close> returns
  \<open>5 pi\<close>, the product with the raw spacing \<open>dx1f\<close>, while the stored cell width is
  \<open>3 pi / 8\<close>.
\<close>

theorem CellVolume_is_not_cell_width_product:
  "CellVolume coords_ex 0 0 2 5 (\<lambda>i. 0) 2
     \<noteq> cell_width1_i coords_ex 2 * dx2f (pmy_block coords_ex) 0 * dx3f (pmy_block coords_ex) 0"
  by (simp add: CellVolume_entries coords_ex_cell2)
    (simp add: coords_ex_def ctor_block_fields mb_ex_def)

text \<open>
  Claim C4 as amended. For every transverse index pair \<open>(k, j)\<close> and every \<open>i\<close> in the
  inclusive range from \<open>il\<close> to \<open>iu\<close>, \<^verbatim>\<open>CellVolume\<close> writes
  \<open>volumes(i) = dx1f(i) * dx2f(j) * dx3f(k)\<close>: the width along the metric-varying
  direction is the raw coordinate spacing, as the comment of the function says
  ("Delta V = Delta x * Delta y * Delta z").
\<close>

theorem CellVolume_uses_coordinate_spacing:
  "il \<le> i \<and> i \<le> iu \<longrightarrow>
     CellVolume c k j il iu volumes i
       = dx1f (pmy_block c) i * dx2f (pmy_block c) j * dx3f (pmy_block c) k"
  by (simp add: CellVolume_entries)

text \<open>Cell 2 of the example block, in the range from 2 to 5.\<close>

theorem CellVolume_uses_coordinate_spacing_witness:
  "(2::int) \<le> 2 \<and> (2::int) \<le> 5
   \<and> CellVolume coords_ex 0 0 2 5 (\<lambda>i. 0) 2
       = dx1f (pmy_block coords_ex) 2 * dx2f (pmy_block coords_ex) 0 * dx3f (pmy_block coords_ex) 0
   \<and> CellVolume coords_ex 0 0 2 5 (\<lambda>i. 0) 2 = 5 * pi"
  using CellVolume_uses_coordinate_spacing
    [where il = 2 and i = 2 and iu = 5 and c = coords_ex and k = 0 and j = 0
       and volumes = "\<lambda>i. 0"]
  by (simp add: coords_ex_def ctor_block_fields mb_ex_def)

section \<open>Cell widths in the flat chart\<close>




section \<open>The metric and its inverse\<close>

text \<open>
  Claim C2. For coordinates built by the constructor, and at every index a metric
  provider writes (the cell-centered one from \<open>is - NGHOST\<close> to \<open>ie + NGHOST\<close>, the
  face-1 one from \<open>is\<close> to \<open>ie + 1\<close>, the face-2 and face-3 ones from \<open>is\<close> to \<open>ie\<close>),
  the 4x4 matrix assembled from the five covariant components times the matrix
  assembled from the five inverse components is the identity matrix. The face-1 loop
  reaches \<open>ie + 1\<close>, which the constructor has computed when \<open>NGHOST\<close> is at least 1.
\<close>

theorem metric_times_inverse_is_identity:
  "(pb_is pb - n \<le> i \<and> i \<le> pb_ie pb + n \<longrightarrow>
      metric_matrix (fst (CellMetric n (Coordinates_ctor A K n new pb) k j gg)) i =
        [[- 1, 0, 0, 0],
         [0, metric_cell_i1 (Coordinates_ctor A K n new pb) i, - metric_cell_i2 (Coordinates_ctor A K n new pb) i, 0],
         [0, - metric_cell_i2 (Coordinates_ctor A K n new pb) i, 1, 0],
         [0, 0, 0, 1]]
    \<and> metric_matrix (snd (CellMetric n (Coordinates_ctor A K n new pb) k j gg)) i =
        [[- 1, 0, 0, 0],
         [0, 1, metric_cell_i2 (Coordinates_ctor A K n new pb) i, 0],
         [0, metric_cell_i2 (Coordinates_ctor A K n new pb) i, metric_cell_i1 (Coordinates_ctor A K n new pb) i, 0],
         [0, 0, 0, 1]]
    \<and> mat_mul (metric_matrix (fst (CellMetric n (Coordinates_ctor A K n new pb) k j gg)) i)
              (metric_matrix (snd (CellMetric n (Coordinates_ctor A K n new pb) k j gg)) i)
        = identity4)
   \<and> (1 \<le> n \<and> pb_is pb \<le> i \<and> i \<le> pb_ie pb + 1 \<longrightarrow>
      metric_matrix (fst (Face1Metric (Coordinates_ctor A K n new pb) k j gg)) i =
        [[- 1, 0, 0, 0],
         [0, metric_face1_i1 (Coordinates_ctor A K n new pb) i, - metric_face1_i2 (Coordinates_ctor A K n new pb) i, 0],
         [0, - metric_face1_i2 (Coordinates_ctor A K n new pb) i, 1, 0],
         [0, 0, 0, 1]]
    \<and> metric_matrix (snd (Face1Metric (Coordinates_ctor A K n new pb) k j gg)) i =
        [[- 1, 0, 0, 0],
         [0, 1, metric_face1_i2 (Coordinates_ctor A K n new pb) i, 0],
         [0, metric_face1_i2 (Coordinates_ctor A K n new pb) i, metric_face1_i1 (Coordinates_ctor A K n new pb) i, 0],
         [0, 0, 0, 1]]
    \<and> mat_mul (metric_matrix (fst (Face1Metric (Coordinates_ctor A K n new pb) k j gg)) i)
              (metric_matrix (snd (Face1Metric (Coordinates_ctor A K n new pb) k j gg)) i)
        = identity4)
   \<and> (0 \<le> n \<and> pb_is pb \<le> i \<and> i \<le> pb_ie pb \<longrightarrow>
      metric_matrix (fst (Face2Metric (Coordinates_ctor A K n new pb) k j gg)) i =
        [[- 1, 0, 0, 0],
         [0, metric_face2_i1 (Coordinates_ctor A K n new pb) i, - metric_face2_i2 (Coordinates_ctor A K n new pb) i, 0],
         [0, - metric_face2_i2 (Coordinates_ctor A K n new pb) i, 1, 0],
         [0, 0, 0, 1]]
    \<and> metric_matrix (snd (Face2Metric (Coordinates_ctor A K n new pb) k j gg)) i =
        [[- 1, 0, 0, 0],
         [0, 1, metric_face2_i2 (Coordinates_ctor A K n new pb) i, 0],
         [0, metric_face2_i2 (Coordinates_ctor A K n new pb) i, metric_face2_i1 (Coordinates_ctor A K n new pb) i, 0],
         [0, 0, 0, 1]]
    \<and> mat_mul (metric_matrix (fst (Face2Metric (Coordinates_ctor A K n new pb) k j gg)) i)
              (metric_matrix (snd (Face2Metric (Coordinates_ctor A K n new pb) k j gg)) i)
        = identity4)
   \<and> (0 \<le> n \<and> pb_is pb \<le> i \<and> i \<le> pb_ie pb \<longrightarrow>
      metric_matrix (fst (Face3Metric (Coordinates_ctor A K n new pb) k j gg)) i =
        [[- 1, 0, 0, 0],
         [0, metric_face3_i1 (Coordinates_ctor A K n new pb) i, - metric_face3_i2 (Coordinates_ctor A K n new pb) i, 0],
         [0, - metric_face3_i2 (Coordinates_ctor A K n new pb) i, 1, 0],
         [0, 0, 0, 1]]
    \<and> metric_matrix (snd (Face3Metric (Coordinates_ctor A K n new pb) k j gg)) i =
        [[- 1, 0, 0, 0],
         [0, 1, metric_face3_i2 (Coordinates_ctor A K n new pb) i, 0],
         [0, metric_face3_i2 (Coordinates_ctor A K n new pb) i, metric_face3_i1 (Coordinates_ctor A K n new pb) i, 0],
         [0, 0, 0, 1]]
    \<and> mat_mul (metric_matrix (fst (Face3Metric (Coordinates_ctor A K n new pb) k j gg)) i)
              (metric_matrix (snd (Face3Metric (Coordinates_ctor A K n new pb) k j gg)) i)
        = identity4)"
proof -
  let ?c = "Coordinates_ctor A K n new pb"
  have cell:
    "metric_matrix (fst (CellMetric n ?c k j gg)) i =
        [[- 1, 0, 0, 0], [0, metric_cell_i1 ?c i, - metric_cell_i2 ?c i, 0], [0, - metric_cell_i2 ?c i, 1, 0], [0, 0, 0, 1]]
     \<and> metric_matrix (snd (CellMetric n ?c k j gg)) i =
        [[- 1, 0, 0, 0], [0, 1, metric_cell_i2 ?c i, 0], [0, metric_cell_i2 ?c i, metric_cell_i1 ?c i, 0], [0, 0, 0, 1]]
     \<and> mat_mul (metric_matrix (fst (CellMetric n ?c k j gg)) i) (metric_matrix (snd (CellMetric n ?c k j gg)) i) = identity4"
    if "pb_is pb - n \<le> i" "i \<le> pb_ie pb + n"
    unfolding CellMetric_def
    by (rule metric_pair_product [where a = "metric_cell_i1 ?c" and b = "metric_cell_i2 ?c"])
      (use that in \<open>simp_all add: ctor_block_fields ctor_pairs\<close>)
  have face1:
    "metric_matrix (fst (Face1Metric ?c k j gg)) i =
        [[- 1, 0, 0, 0], [0, metric_face1_i1 ?c i, - metric_face1_i2 ?c i, 0], [0, - metric_face1_i2 ?c i, 1, 0], [0, 0, 0, 1]]
     \<and> metric_matrix (snd (Face1Metric ?c k j gg)) i =
        [[- 1, 0, 0, 0], [0, 1, metric_face1_i2 ?c i, 0], [0, metric_face1_i2 ?c i, metric_face1_i1 ?c i, 0], [0, 0, 0, 1]]
     \<and> mat_mul (metric_matrix (fst (Face1Metric ?c k j gg)) i) (metric_matrix (snd (Face1Metric ?c k j gg)) i) = identity4"
    if "1 \<le> n" "pb_is pb \<le> i" "i \<le> pb_ie pb + 1"
    unfolding Face1Metric_def
    by (rule metric_pair_product [where a = "metric_face1_i1 ?c" and b = "metric_face1_i2 ?c"])
      (use that in \<open>simp_all add: ctor_block_fields ctor_pairs\<close>)
  have face2:
    "metric_matrix (fst (Face2Metric ?c k j gg)) i =
        [[- 1, 0, 0, 0], [0, metric_face2_i1 ?c i, - metric_face2_i2 ?c i, 0], [0, - metric_face2_i2 ?c i, 1, 0], [0, 0, 0, 1]]
     \<and> metric_matrix (snd (Face2Metric ?c k j gg)) i =
        [[- 1, 0, 0, 0], [0, 1, metric_face2_i2 ?c i, 0], [0, metric_face2_i2 ?c i, metric_face2_i1 ?c i, 0], [0, 0, 0, 1]]
     \<and> mat_mul (metric_matrix (fst (Face2Metric ?c k j gg)) i) (metric_matrix (snd (Face2Metric ?c k j gg)) i) = identity4"
    if "0 \<le> n" "pb_is pb \<le> i" "i \<le> pb_ie pb"
    unfolding Face2Metric_def
    by (rule metric_pair_product [where a = "metric_face2_i1 ?c" and b = "metric_face2_i2 ?c"])
      (use that in \<open>simp_all add: ctor_block_fields ctor_pairs\<close>)
  have face3:
    "metric_matrix (fst (Face3Metric ?c k j gg)) i =
        [[- 1, 0, 0, 0], [0, metric_face3_i1 ?c i, - metric_face3_i2 ?c i, 0], [0, - metric_face3_i2 ?c i, 1, 0], [0, 0, 0, 1]]
     \<and> metric_matrix (snd (Face3Metric ?c k j gg)) i =
        [[- 1, 0, 0, 0], [0, 1, metric_face3_i2 ?c i, 0], [0, metric_face3_i2 ?c i, metric_face3_i1 ?c i, 0], [0, 0, 0, 1]]
     \<and> mat_mul (metric_matrix (fst (Face3Metric ?c k j gg)) i) (metric_matrix (snd (Face3Metric ?c k j gg)) i) = identity4"
    if "0 \<le> n" "pb_is pb \<le> i" "i \<le> pb_ie pb"
    unfolding Face3Metric_def
    by (rule metric_pair_product [where a = "metric_face3_i1 ?c" and b = "metric_face3_i2 ?c"])
      (use that in \<open>simp_all add: ctor_block_fields ctor_pairs\<close>)
  from cell face1 face2 face3 show ?thesis by blast
qed

text \<open>
  Index 2 of the example block: the cell-centered pair is \<open>(3/2, sqrt 2 / 2)\<close>, and all
  four products are the identity.
\<close>

theorem metric_times_inverse_is_identity_witness:
  "pb_is mb_ex - 2 \<le> 2 \<and> 2 \<le> pb_ie mb_ex + 2
   \<and> (1::int) \<le> 2 \<and> pb_is mb_ex \<le> 2 \<and> 2 \<le> pb_ie mb_ex + 1
   \<and> (0::int) \<le> 2 \<and> 2 \<le> pb_ie mb_ex
   \<and> metric_matrix (fst (CellMetric 2 coords_ex 0 0 (\<lambda>ni. 0, \<lambda>ni. 0))) 2 =
        [[- 1, 0, 0, 0], [0, 3 / 2, - (sqrt 2 / 2), 0], [0, - (sqrt 2 / 2), 1, 0], [0, 0, 0, 1]]
   \<and> metric_matrix (snd (CellMetric 2 coords_ex 0 0 (\<lambda>ni. 0, \<lambda>ni. 0))) 2 =
        [[- 1, 0, 0, 0], [0, 1, sqrt 2 / 2, 0], [0, sqrt 2 / 2, 3 / 2, 0], [0, 0, 0, 1]]
   \<and> mat_mul (metric_matrix (fst (CellMetric 2 coords_ex 0 0 (\<lambda>ni. 0, \<lambda>ni. 0))) 2)
              (metric_matrix (snd (CellMetric 2 coords_ex 0 0 (\<lambda>ni. 0, \<lambda>ni. 0))) 2)
        = identity4
   \<and> mat_mul (metric_matrix (fst (Face1Metric coords_ex 0 0 (\<lambda>ni. 0, \<lambda>ni. 0))) 2)
              (metric_matrix (snd (Face1Metric coords_ex 0 0 (\<lambda>ni. 0, \<lambda>ni. 0))) 2)
        = identity4
   \<and> mat_mul (metric_matrix (fst (Face2Metric coords_ex 0 0 (\<lambda>ni. 0, \<lambda>ni. 0))) 2)
              (metric_matrix (snd (Face2Metric coords_ex 0 0 (\<lambda>ni. 0, \<lambda>ni. 0))) 2)
        = identity4
   \<and> mat_mul (metric_matrix (fst (Face3Metric coords_ex 0 0 (\<lambda>ni. 0, \<lambda>ni. 0))) 2)
              (metric_matrix (snd (Face3Metric coords_ex 0 0 (\<lambda>ni. 0, \<lambda>ni. 0))) 2)
        = identity4"
proof -
  have h: "pb_is mb_ex - 2 \<le> 2 \<and> 2 \<le> pb_ie mb_ex + 2"
    "(1::int) \<le> 2 \<and> pb_is mb_ex \<le> 2 \<and> 2 \<le> pb_ie mb_ex + 1"
    "(0::int) \<le> 2 \<and> pb_is mb_ex \<le> 2 \<and> 2 \<le> pb_ie mb_ex"
    by (simp_all add: mb_ex_def)
  from metric_times_inverse_is_identity
    [where pb = mb_ex and n = 2 and i = 2 and A = globals_A and K = globals_K
       and new = "\<lambda>n i. 0" and k = 0 and j = 0 and gg = "(\<lambda>ni. 0, \<lambda>ni. 0)"]
  show ?thesis
    using h unfolding coords_ex_def [symmetric] coords_ex_cell2 by blast
qed

section \<open>The coordinate source term\<close>

text \<open>
  Claim C8. \<^verbatim>\<open>CoordinateSourceTerms\<close> leaves the primitive array as it is, and leaves
  every entry of the conserved array as it is except the x1-momentum entries of the
  interior cells: an entry \<open>(n, k, j, i)\<close> is unchanged when \<open>n\<close> is not \<^verbatim>\<open>IM1\<close> or the
  cell \<open>(k, j, i)\<close> lies outside \<open>[ks, ke] x [js, je] x [is, ie]\<close>.
\<close>

theorem CoordinateSourceTerms_frame:
  "prim (CoordinateSourceTerms dt c s) = prim s
   \<and> (n \<noteq> IM1
        \<or> \<not> (pb_ks (pmy_block c) \<le> k \<and> k \<le> pb_ke (pmy_block c)
             \<and> pb_js (pmy_block c) \<le> j \<and> j \<le> pb_je (pmy_block c)
             \<and> pb_is (pmy_block c) \<le> i \<and> i \<le> pb_ie (pmy_block c))
      \<longrightarrow> cons (CoordinateSourceTerms dt c s) (n, k, j, i) = cons s (n, k, j, i))"
  by (auto simp: CoordinateSourceTerms_closed)

text \<open>
  The example: the energy entry of the interior cell \<open>(0, 0, 2)\<close> and the x1-momentum
  entry of the ghost cell \<open>(0, 0, 1)\<close> are unchanged, while the x1-momentum entry of
  the interior cell does change.
\<close>

theorem CoordinateSourceTerms_frame_witness:
  "prim (CoordinateSourceTerms 1 coords_ex fluid_ex) = prim fluid_ex
   \<and> IEN \<noteq> IM1
   \<and> cons (CoordinateSourceTerms 1 coords_ex fluid_ex) (IEN, 0, 0, 2) = cons fluid_ex (IEN, 0, 0, 2)
   \<and> \<not> (pb_ks (pmy_block coords_ex) \<le> 0 \<and> 0 \<le> pb_ke (pmy_block coords_ex)
        \<and> pb_js (pmy_block coords_ex) \<le> 0 \<and> 0 \<le> pb_je (pmy_block coords_ex)
        \<and> pb_is (pmy_block coords_ex) \<le> 1 \<and> 1 \<le> pb_ie (pmy_block coords_ex))
   \<and> cons (CoordinateSourceTerms 1 coords_ex fluid_ex) (IM1, 0, 0, 1) = cons fluid_ex (IM1, 0, 0, 1)
   \<and> cons (CoordinateSourceTerms 1 coords_ex fluid_ex) (IM1, 0, 0, 2) \<noteq> cons fluid_ex (IM1, 0, 0, 2)"
proof -
  have h1: "IEN \<noteq> IM1" by simp
  have h2: "\<not> (pb_ks (pmy_block coords_ex) \<le> 0 \<and> 0 \<le> pb_ke (pmy_block coords_ex)
        \<and> pb_js (pmy_block coords_ex) \<le> 0 \<and> 0 \<le> pb_je (pmy_block coords_ex)
        \<and> pb_is (pmy_block coords_ex) \<le> 1 \<and> 1 \<le> pb_ie (pmy_block coords_ex))"
    by (simp add: coords_ex_block)
  have changed: "cons (CoordinateSourceTerms 1 coords_ex fluid_ex) (IM1, 0, 0, 2)
      \<noteq> cons fluid_ex (IM1, 0, 0, 2)"
    by (simp add: CoordinateSourceTerms_closed coords_ex_block source_s1_ex)
  from CoordinateSourceTerms_frame
    [where dt = 1 and c = coords_ex and s = fluid_ex and n = IEN and k = 0 and j = 0 and i = 2]
    CoordinateSourceTerms_frame
    [where dt = 1 and c = coords_ex and s = fluid_ex and n = IM1 and k = 0 and j = 0 and i = 1]
  show ?thesis
    using h1 h2 changed by blast
qed

text \<open>
  Claim C1 says that the increment of the x1-momentum is \<open>dt * sourceCoeff * rho_h u1 u_2\<close>
  with the covariant \<open>g12 = - beta\<close> of the metric provider, in the normalization and in
  \<open>u_2\<close>. The source reads \<^verbatim>\<open>g12 = metric_cell_i2_(i)\<close>, which is \<open>+ beta\<close>, where
  \<^verbatim>\<open>CellMetric\<close> and the frame transforms use \<open>- beta\<close>. For the example fluid in cell
  \<open>(0, 0, 2)\<close>, with \<open>dt = 1\<close>, the code adds \<open>24 sqrt 2 / (5 pi)\<close> and the formula of the
  claim gives the opposite sign.
\<close>

theorem source_term_sign_of_g12:
  "cons (CoordinateSourceTerms 1 coords_ex fluid_ex) (IM1, 0, 0, 2) = 24 * sqrt 2 / (5 * pi)
   \<and> cons fluid_ex (IM1, 0, 0, 2)
       + 1 * spec_source_s1 2 coords_ex
               (GetGamma (pmy_block coords_ex) / (GetGamma (pmy_block coords_ex) - 1))
               (prim fluid_ex) 0 0 2
      = - (24 * sqrt 2 / (5 * pi))"
proof -
  have code: "cons (CoordinateSourceTerms 1 coords_ex fluid_ex) (IM1, 0, 0, 2)
      = 24 * sqrt 2 / (5 * pi)"
    by (simp add: CoordinateSourceTerms_closed coords_ex_block source_s1_ex)
      (simp add: fluid_ex_def)
  have g: "fst (CellMetric 2 coords_ex 0 0 (\<lambda>ni. 0, \<lambda>ni. 0)) (n, 2) =
      (case n of I00 \<Rightarrow> - 1 | I11 \<Rightarrow> 3 / 2 | I12 \<Rightarrow> - (sqrt 2 / 2) | I22 \<Rightarrow> 1 | I33 \<Rightarrow> 1)" for n
    unfolding CellMetric_def
    by (subst fold_metric_terms [where a = "metric_cell_i1 coords_ex"
          and b = "metric_cell_i2 coords_ex"])
      (simp_all add: coords_ex_block coords_ex_cell2 split: metric_index.splits)
  have spec: "spec_source_s1 2 coords_ex 2 (prim fluid_ex) 0 0 2 = - (24 * sqrt 2 / (5 * pi))"
    by (simp add: spec_source_s1_def Let_def g coords_ex_cell2 fluid_ex_def sqrt_25)
  from code spec show ?thesis
    by (simp add: coords_ex_block fluid_ex_def)
qed

end
